theory Spec2Isabelle
  imports Main
begin

section \<open>Python values and faults\<close>

text \<open>
  The acquisition step (\<^verbatim>\<open>src/data/acquisition/utils.py\<close>) walks HTML listings and
  an XML document that \<^verbatim>\<open>xmltodict\<close> has turned into nested Python objects.  Every
  exception the code can raise is a value of \<open>py_error\<close>; a function that may raise
  returns \<open>py_error + 'a\<close> with \<open>Inl\<close> for the exception.
\<close>

datatype py_error =
    KeyError
  | TypeError
  | IndexError
  | AttributeError
  | UnboundLocalError
  | RequestError
  | ExpatError

text \<open>
  What \<^verbatim>\<open>xmltodict.parse\<close> produces: \<^verbatim>\<open>None\<close> for an empty element, a \<^verbatim>\<open>str\<close> for
  a text-only element, a \<^verbatim>\<open>list\<close> for a repeated element and a \<^verbatim>\<open>dict\<close> otherwise.
  A dict is an association list; \<open>map_of\<close> reads it.
\<close>

datatype xval =
    XNull
  | XStr string
  | XList "xval list"
  | XDict "(string \<times> xval) list"

subsection \<open>Strings\<close>

text \<open>\<^verbatim>\<open>needle in hay\<close> on two \<^verbatim>\<open>str\<close>: \<open>needle\<close> occurs as a contiguous run.\<close>

fun str_in :: "string \<Rightarrow> string \<Rightarrow> bool" where
  "str_in needle [] = (needle = [])"
| "str_in needle (c # cs) =
     (take (length needle) (c # cs) = needle \<or> str_in needle cs)"

text \<open>
  \<^verbatim>\<open>s.split(c)\<close> for a one-character separator: \<open>cur\<close> is the segment being read.
  The result is never empty, so \<^verbatim>\<open>[-1]\<close> on it is \<open>last\<close>.
\<close>

fun split_from :: "char \<Rightarrow> string \<Rightarrow> string \<Rightarrow> string list" where
  "split_from c cur [] = [cur]"
| "split_from c cur (x # xs) =
     (if x = c then cur # split_from c [] xs else split_from c (cur @ [x]) xs)"

definition py_split :: "char \<Rightarrow> string \<Rightarrow> string list" where
  "py_split c s = split_from c [] s"

definition last_segment :: "char \<Rightarrow> string \<Rightarrow> string" where
  "last_segment c s = last (py_split c s)"

subsection \<open>Subscripts and membership on parsed XML\<close>

text \<open>\<^verbatim>\<open>v[k]\<close> with a \<^verbatim>\<open>str\<close> key \<open>k\<close>: only a dict can be read that way.\<close>

fun py_get :: "xval \<Rightarrow> string \<Rightarrow> py_error + xval" where
  "py_get (XDict d) k = (case map_of d k of None \<Rightarrow> Inl KeyError | Some v \<Rightarrow> Inr v)"
| "py_get XNull k = Inl TypeError"
| "py_get (XStr s) k = Inl TypeError"
| "py_get (XList l) k = Inl TypeError"

text \<open>
  \<^verbatim>\<open>k in v\<close> with a \<^verbatim>\<open>str\<close> \<open>k\<close>: a key test on a dict, a substring test on a
  string, an element test on a list, a \<^verbatim>\<open>TypeError\<close> on \<^verbatim>\<open>None\<close>.
\<close>

fun py_in :: "string \<Rightarrow> xval \<Rightarrow> py_error + bool" where
  "py_in k (XDict d) = Inr (map_of d k \<noteq> None)"
| "py_in k (XStr s) = Inr (str_in k s)"
| "py_in k (XList l) = Inr (XStr k \<in> set l)"
| "py_in k XNull = Inl TypeError"

text \<open>\<^verbatim>\<open>v[k1][k2]\<close> and \<^verbatim>\<open>v[k1][k2][k3]\<close>, left to right.\<close>

definition py_get2 :: "xval \<Rightarrow> string \<Rightarrow> string \<Rightarrow> py_error + xval" where
  "py_get2 v k1 k2 = (case py_get v k1 of Inl e \<Rightarrow> Inl e | Inr a \<Rightarrow> py_get a k2)"

definition py_get3 :: "xval \<Rightarrow> string \<Rightarrow> string \<Rightarrow> string \<Rightarrow> py_error + xval" where
  "py_get3 v k1 k2 k3 = (case py_get2 v k1 k2 of Inl e \<Rightarrow> Inl e | Inr a \<Rightarrow> py_get a k3)"

section \<open>Pages and the archive\<close>

text \<open>
  What the code observes of a page after \<^verbatim>\<open>BeautifulSoup(content, 'html.parser')\<close>:
  the \<^verbatim>\<open>table\<close> elements in document order (\<^verbatim>\<open>soup.find('table')\<close> is the first, or
  \<^verbatim>\<open>None\<close>), of a table its anchors (\<^verbatim>\<open>find_all('a')\<close>) and its rows
  (\<^verbatim>\<open>find_all('tr')\<close>), of a row its cells (\<^verbatim>\<open>find_all('td')\<close>), of a cell its
  \<^verbatim>\<open>.text\<close> and its anchors.  An anchor is its \<^verbatim>\<open>href\<close>, \<open>None\<close> when it has none.
\<close>

record html_cell =
  cell_text :: string
  cell_anchors :: "string option list"

type_synonym html_row = "html_cell list"

record html_table =
  table_anchors :: "string option list"
  table_rows :: "html_row list"

type_synonym html_page = "html_table list"

type_synonym header_dict = "(string \<times> string) list"

text \<open>
  The archive is a parameter: \<open>fetch_html\<close> is \<^verbatim>\<open>requests.get\<close> followed by
  \<^verbatim>\<open>BeautifulSoup\<close>, \<open>fetch_xml\<close> is \<^verbatim>\<open>requests.get\<close> followed by
  \<^verbatim>\<open>xmltodict.parse\<close>; either may raise.
\<close>

record web =
  fetch_html :: "string \<Rightarrow> header_dict \<Rightarrow> py_error + html_page"
  fetch_xml :: "string \<Rightarrow> header_dict \<Rightarrow> py_error + xval"

text \<open>\<^verbatim>\<open>xs[i]\<close> for \<open>i \<ge> 0\<close>: an \<^verbatim>\<open>IndexError\<close> out of range.\<close>

definition py_nth :: "'a list \<Rightarrow> nat \<Rightarrow> py_error + 'a" where
  "py_nth xs i = (if i < length xs then Inr (xs ! i) else Inl IndexError)"

text \<open>\<^verbatim>\<open>base_url + u\<close>: a \<^verbatim>\<open>TypeError\<close> when \<open>u\<close> is \<^verbatim>\<open>None\<close>.\<close>

definition py_concat :: "string \<Rightarrow> string option \<Rightarrow> py_error + string" where
  "py_concat base u = (case u of None \<Rightarrow> Inl TypeError | Some s \<Rightarrow> Inr (base @ s))"

section \<open>Listing parser\<close>

text \<open>\<^verbatim>\<open>get_urls\<close> (lines 72-97): \<^verbatim>\<open>None.find_all\<close> is an \<^verbatim>\<open>AttributeError\<close>.\<close>

definition get_urls :: "web \<Rightarrow> string \<Rightarrow> header_dict \<Rightarrow> py_error + string option list" where
  "get_urls w url headers =
     (case fetch_html w url headers of
        Inl e \<Rightarrow> Inl e
      | Inr soup \<Rightarrow>
          (case soup of
             [] \<Rightarrow> Inl AttributeError
           | t # _ \<Rightarrow> Inr (table_anchors t)))"

section \<open>Locating the index page\<close>

text \<open>
  \<^verbatim>\<open>find_index_file\<close> (lines 100-115).  The list comes from \<^verbatim>\<open>get_urls\<close>, whose
  entries are \<^verbatim>\<open>a.get('href')\<close>: \<^verbatim>\<open>None\<close> for an anchor with no target, and
  \<^verbatim>\<open>None.split\<close> is an \<^verbatim>\<open>AttributeError\<close>.  Falling off the loop returns \<^verbatim>\<open>None\<close>.
\<close>

fun find_index_file :: "string option list \<Rightarrow> py_error + string option" where
  "find_index_file [] = Inr None"
| "find_index_file (None # rest) = Inl AttributeError"
| "find_index_file (Some url # rest) =
     (if ''index.html'' = last_segment CHR ''-'' url then Inr (Some url)
      else find_index_file rest)"

section \<open>Locating the Form 4 document\<close>

text \<open>\<^verbatim>\<open>get_table_rows\<close> (lines 118-140): the rows of the first table but the first.\<close>

definition get_table_rows :: "web \<Rightarrow> string \<Rightarrow> header_dict \<Rightarrow> py_error + html_row list" where
  "get_table_rows w url headers =
     (case fetch_html w url headers of
        Inl e \<Rightarrow> Inl e
      | Inr soup \<Rightarrow>
          (case soup of
             [] \<Rightarrow> Inl AttributeError
           | t # _ \<Rightarrow> Inr (drop 1 (table_rows t))))"

text \<open>
  The condition of line 165, in its order of evaluation:
  \<^verbatim>\<open>('FORM 4' in col_list[1].text or 'form4' in col_list[2].text)\<close>, whose second
  operand is read only when the first is false,
\<close>

definition form4_label :: "html_row \<Rightarrow> py_error + bool" where
  "form4_label col_list =
     (case py_nth col_list 1 of
        Inl e \<Rightarrow> Inl e
      | Inr c1 \<Rightarrow>
          if str_in ''FORM 4'' (cell_text c1) then Inr True
          else (case py_nth col_list 2 of
                  Inl e \<Rightarrow> Inl e
                | Inr c2 \<Rightarrow> Inr (str_in ''form4'' (cell_text c2))))"

text \<open>\<^verbatim>\<open>col_list[2].text.split('.')[-1] == 'xml'\<close>,\<close>

definition xml_extension :: "html_row \<Rightarrow> py_error + bool" where
  "xml_extension col_list =
     (case py_nth col_list 2 of
        Inl e \<Rightarrow> Inl e
      | Inr c2 \<Rightarrow> Inr (last_segment CHR ''.'' (cell_text c2) = ''xml''))"

text \<open>and their conjunction, whose second operand is read only when the first is true.\<close>

definition row_matches :: "html_row \<Rightarrow> py_error + bool" where
  "row_matches col_list =
     (case form4_label col_list of
        Inl e \<Rightarrow> Inl e
      | Inr l \<Rightarrow> if l then xml_extension col_list else Inr False)"

text \<open>
  \<^verbatim>\<open>col_list[2].find('a').get('href')\<close> (line 166): \<^verbatim>\<open>find\<close> gives the first anchor
  or \<^verbatim>\<open>None\<close>, and \<^verbatim>\<open>None.get\<close> is an \<^verbatim>\<open>AttributeError\<close>.
\<close>

definition row_href :: "html_row \<Rightarrow> py_error + string option" where
  "row_href col_list =
     (case py_nth col_list 2 of
        Inl e \<Rightarrow> Inl e
      | Inr c2 \<Rightarrow>
          (case cell_anchors c2 of
             [] \<Rightarrow> Inl AttributeError
           | a # _ \<Rightarrow> Inr a))"

text \<open>The loop of lines 163-168.\<close>

fun scan_rows :: "html_row list \<Rightarrow> py_error + string option" where
  "scan_rows [] = Inr None"
| "scan_rows (row # rest) =
     (case row_matches row of
        Inl e \<Rightarrow> Inl e
      | Inr m \<Rightarrow> if m then row_href row else scan_rows rest)"

text \<open>\<^verbatim>\<open>get_form_4_url\<close> (lines 143-168).\<close>

definition get_form_4_url :: "web \<Rightarrow> string \<Rightarrow> header_dict \<Rightarrow> py_error + string option" where
  "get_form_4_url w url headers =
     (case get_table_rows w url headers of
        Inl e \<Rightarrow> Inl e
      | Inr table_rows_list \<Rightarrow> scan_rows table_rows_list)"

section \<open>Ownership extractor\<close>

text \<open>
  A row of the data frame (lines 246-256).  The values are whatever the document holds at
  the paths read; \<open>derivative_type\<close> is the function's argument.
\<close>

record transaction =
  issuerCik :: xval
  issuerName :: xval
  issuerTradingSymbol :: xval
  securityTitle :: xval
  transactionDate :: xval
  transactionShares :: xval
  transactionPricePerShare :: xval
  directOrIndirectOwnership :: xval
  derivative_type :: string

text \<open>
  Lines 225-233 for one table: \<open>None\<close> is the early \<^verbatim>\<open>return data_df\<close> when the
  transaction key is not in the table.
\<close>

definition transaction_list :: "xval \<Rightarrow> string \<Rightarrow> py_error + xval option" where
  "transaction_list table key =
     (case py_in key table of
        Inl e \<Rightarrow> Inl e
      | Inr present \<Rightarrow>
          if \<not> present then Inr None
          else (case py_get table key of
                  Inl e \<Rightarrow> Inl e
                | Inr v \<Rightarrow> Inr (Some v)))"

text \<open>Lines 234-235: \<^verbatim>\<open>if type(derivatives_data) != list: derivatives_data = [derivatives_data]\<close>.\<close>

definition as_list :: "xval \<Rightarrow> xval list" where
  "as_list v = (case v of XList l \<Rightarrow> l | _ \<Rightarrow> [v])"

text \<open>
  Lines 223-235: the entries the loop will visit, \<open>None\<close> when the function returns the
  empty frame without looping.  With a \<open>derivative_type\<close> other than the two table names
  \<^verbatim>\<open>derivatives_data\<close> is never bound and line 234 raises.
\<close>

definition select_transactions :: "xval \<Rightarrow> string \<Rightarrow> py_error + xval list option" where
  "select_transactions data dt =
     (case py_get data ''ownershipDocument'' of
        Inl e \<Rightarrow> Inl e
      | Inr root \<Rightarrow>
          (case py_in dt root of
             Inl e \<Rightarrow> Inl e
           | Inr present \<Rightarrow>
               if \<not> present then Inr None
               else (case py_get root dt of
                       Inl e \<Rightarrow> Inl e
                     | Inr table \<Rightarrow>
                         if table = XNull then Inr None
                         else (case (if dt = ''nonDerivativeTable''
                                       then transaction_list table ''nonDerivativeTransaction''
                                     else if dt = ''derivativeTable''
                                       then transaction_list table ''derivativeTransaction''
                                     else Inl UnboundLocalError) of
                                 Inl e \<Rightarrow> Inl e
                               | Inr None \<Rightarrow> Inr None
                               | Inr (Some v) \<Rightarrow> Inr (Some (as_list v))))))"

text \<open>
  The condition of lines 238-239; the trading symbol is read only when the title test
  is true.
\<close>

definition passes_filter :: "xval \<Rightarrow> xval \<Rightarrow> string \<Rightarrow> py_error + bool" where
  "passes_filter data derivative_data cik_name =
     (case py_get2 derivative_data ''securityTitle'' ''value'' of
        Inl e \<Rightarrow> Inl e
      | Inr title \<Rightarrow>
          (case py_in ''Common Stock'' title of
             Inl e \<Rightarrow> Inl e
           | Inr c \<Rightarrow>
               if \<not> c then Inr False
               else (case py_get3 data ''ownershipDocument'' ''issuer'' ''issuerTradingSymbol'' of
                       Inl e \<Rightarrow> Inl e
                     | Inr symbol \<Rightarrow> Inr (symbol = XStr cik_name))))"

text \<open>Lines 240-243: the bare \<^verbatim>\<open>except\<close> turns every exception into \<^verbatim>\<open>None\<close>.\<close>

definition read_price :: "xval \<Rightarrow> xval" where
  "read_price derivative_data =
     (case py_get3 derivative_data ''transactionAmounts'' ''transactionPricePerShare'' ''value'' of
        Inl e \<Rightarrow> XNull
      | Inr v \<Rightarrow> v)"

text \<open>Lines 246-256: the fields are read in the order they are written.\<close>

definition make_row :: "xval \<Rightarrow> xval \<Rightarrow> string \<Rightarrow> xval \<Rightarrow> py_error + transaction" where
  "make_row data derivative_data dt price =
     (case py_get3 data ''ownershipDocument'' ''issuer'' ''issuerCik'' of
        Inl e \<Rightarrow> Inl e
      | Inr cik \<Rightarrow>
     (case py_get3 data ''ownershipDocument'' ''issuer'' ''issuerName'' of
        Inl e \<Rightarrow> Inl e
      | Inr name \<Rightarrow>
     (case py_get3 data ''ownershipDocument'' ''issuer'' ''issuerTradingSymbol'' of
        Inl e \<Rightarrow> Inl e
      | Inr symbol \<Rightarrow>
     (case py_get2 derivative_data ''securityTitle'' ''value'' of
        Inl e \<Rightarrow> Inl e
      | Inr title \<Rightarrow>
     (case py_get2 derivative_data ''transactionDate'' ''value'' of
        Inl e \<Rightarrow> Inl e
      | Inr date \<Rightarrow>
     (case py_get3 derivative_data ''transactionAmounts'' ''transactionShares'' ''value'' of
        Inl e \<Rightarrow> Inl e
      | Inr shares \<Rightarrow>
     (case py_get3 derivative_data ''ownershipNature'' ''directOrIndirectOwnership'' ''value'' of
        Inl e \<Rightarrow> Inl e
      | Inr own \<Rightarrow>
          Inr \<lparr>issuerCik = cik, issuerName = name, issuerTradingSymbol = symbol,
               securityTitle = title, transactionDate = date, transactionShares = shares,
               transactionPricePerShare = price, directOrIndirectOwnership = own,
               derivative_type = dt\<rparr>)))))))"

text \<open>The loop of lines 237-258; \<^verbatim>\<open>data_df.append\<close> adds the row at the end.\<close>

fun extract_rows ::
  "xval \<Rightarrow> string \<Rightarrow> string \<Rightarrow> xval list \<Rightarrow> transaction list \<Rightarrow> py_error + transaction list"
where
  "extract_rows data dt cik_name [] data_df = Inr data_df"
| "extract_rows data dt cik_name (derivative_data # rest) data_df =
     (case passes_filter data derivative_data cik_name of
        Inl e \<Rightarrow> Inl e
      | Inr ok \<Rightarrow>
          if ok then
            (case make_row data derivative_data dt (read_price derivative_data) of
               Inl e \<Rightarrow> Inl e
             | Inr row \<Rightarrow> extract_rows data dt cik_name rest (data_df @ [row]))
          else extract_rows data dt cik_name rest data_df)"

text \<open>\<^verbatim>\<open>extract_data\<close> (lines 206-259).\<close>

definition extract_data :: "xval \<Rightarrow> string \<Rightarrow> string \<Rightarrow> py_error + transaction list" where
  "extract_data data dt cik_name =
     (case select_transactions data dt of
        Inl e \<Rightarrow> Inl e
      | Inr None \<Rightarrow> Inr []
      | Inr (Some derivatives_data) \<Rightarrow> extract_rows data dt cik_name derivatives_data [])"

text \<open>\<^verbatim>\<open>parse_xml_url\<close> (lines 171-203).\<close>

definition parse_xml_url ::
  "web \<Rightarrow> string \<Rightarrow> header_dict \<Rightarrow> string \<Rightarrow> py_error + transaction list" where
  "parse_xml_url w url headers cik_name =
     (case fetch_xml w url headers of
        Inl e \<Rightarrow> Inl e
      | Inr data \<Rightarrow>
          (case extract_data data ''derivativeTable'' cik_name of
             Inl e \<Rightarrow> Inl e
           | Inr derivative_data_df \<Rightarrow>
               (case extract_data data ''nonDerivativeTable'' cik_name of
                  Inl e \<Rightarrow> Inl e
                | Inr non_derivative_data_df \<Rightarrow>
                    Inr (derivative_data_df @ non_derivative_data_df))))"

section \<open>Crawl\<close>

text \<open>
  The inner loop of \<^verbatim>\<open>load_data\<close> (lines 48-68).  \<^verbatim>\<open>pd.concat([data_df, final_data_df])\<close>
  puts the new rows first.  The result of \<^verbatim>\<open>find_index_file\<close> is concatenated to
  \<^verbatim>\<open>base_url\<close> as it comes; only \<^verbatim>\<open>xml_url\<close> is compared with \<^verbatim>\<open>None\<close>.
\<close>

fun load_folders ::
  "web \<Rightarrow> string \<Rightarrow> header_dict \<Rightarrow> string \<Rightarrow> string option list \<Rightarrow> transaction list
     \<Rightarrow> py_error + transaction list"
where
  "load_folders w base_url headers cik_name [] final_data_df = Inr final_data_df"
| "load_folders w base_url headers cik_name (folder_url # rest) final_data_df =
     (case py_concat base_url folder_url of
        Inl e \<Rightarrow> Inl e
      | Inr furl \<Rightarrow>
     (case get_urls w furl headers of
        Inl e \<Rightarrow> Inl e
      | Inr file_url_list \<Rightarrow>
     (case find_index_file file_url_list of
        Inl e \<Rightarrow> Inl e
      | Inr index_file_url \<Rightarrow>
     (case py_concat base_url index_file_url of
        Inl e \<Rightarrow> Inl e
      | Inr iurl \<Rightarrow>
     (case get_form_4_url w iurl headers of
        Inl e \<Rightarrow> Inl e
      | Inr None \<Rightarrow> load_folders w base_url headers cik_name rest final_data_df
      | Inr (Some xml_url) \<Rightarrow>
          (case parse_xml_url w (base_url @ xml_url) headers cik_name of
             Inl e \<Rightarrow> Inl e
           | Inr data_df \<Rightarrow>
               load_folders w base_url headers cik_name rest (data_df @ final_data_df)))))))"

text \<open>
  The outer loop (lines 42-47) over the registry in its order; \<open>cik\<close> is \<^verbatim>\<open>str(cik)\<close>.
\<close>

fun load_ciks ::
  "web \<Rightarrow> string \<Rightarrow> string \<Rightarrow> header_dict \<Rightarrow> (string \<times> string) list \<Rightarrow> transaction list
     \<Rightarrow> py_error + transaction list"
where
  "load_ciks w base_url extend_url headers [] final_data_df = Inr final_data_df"
| "load_ciks w base_url extend_url headers ((cik_name, cik) # rest) final_data_df =
     (case get_urls w (base_url @ extend_url @ cik) headers of
        Inl e \<Rightarrow> Inl e
      | Inr folder_url_list \<Rightarrow>
          (case load_folders w base_url headers cik_name folder_url_list final_data_df of
             Inl e \<Rightarrow> Inl e
           | Inr df \<Rightarrow> load_ciks w base_url extend_url headers rest df))"

text \<open>\<^verbatim>\<open>load_data\<close> (lines 12-69).\<close>

definition load_data ::
  "web \<Rightarrow> (string \<times> string) list \<Rightarrow> string \<Rightarrow> string \<Rightarrow> header_dict \<Rightarrow> py_error + transaction list"
where
  "load_data w cik_dict base_url extend_url headers = load_ciks w base_url extend_url headers cik_dict []"

section \<open>Example archives and predicates used in the statements\<close>

text \<open>An archive given by its pages and documents; any other URL fails to load.\<close>

definition web_of :: "(string \<times> html_page) list \<Rightarrow> (string \<times> xval) list \<Rightarrow> web" where
  "web_of pages docs =
     \<lparr>fetch_html = (\<lambda>url headers. case map_of pages url of None \<Rightarrow> Inl RequestError | Some p \<Rightarrow> Inr p),
      fetch_xml = (\<lambda>url headers. case map_of docs url of None \<Rightarrow> Inl RequestError | Some d \<Rightarrow> Inr d)\<rparr>"

text \<open>The rule of line 114 on one link.\<close>

definition index_match :: "string \<Rightarrow> bool" where
  "index_match u \<longleftrightarrow> last_segment CHR ''-'' u = ''index.html''"

text \<open>
  The condition of line 165 on a row that has its three cells: the second cell's text
  contains \<open>FORM 4\<close> or the third cell's text contains \<open>form4\<close>, and the third
  cell's text ends in the extension \<open>xml\<close>.
\<close>

definition qualifies :: "html_row \<Rightarrow> bool" where
  "qualifies r \<longleftrightarrow>
     (str_in ''FORM 4'' (cell_text (r ! 1)) \<or> str_in ''form4'' (cell_text (r ! 2))) \<and>
     last_segment CHR ''.'' (cell_text (r ! 2)) = ''xml''"

text \<open>Pages for the examples: a cell, an index page with its rows, a listing with its links.\<close>

definition ex_cell :: "string \<Rightarrow> string option list \<Rightarrow> html_cell" where
  "ex_cell t as = \<lparr>cell_text = t, cell_anchors = as\<rparr>"

definition ex_index_page :: "html_row list \<Rightarrow> html_page" where
  "ex_index_page rows = [\<lparr>table_anchors = [], table_rows = rows\<rparr>]"

definition ex_listing :: "string option list \<Rightarrow> html_page" where
  "ex_listing as = [\<lparr>table_anchors = as, table_rows = []\<rparr>]"

text \<open>
  Documents for the examples: a transaction entry with a title and its amounts, an
  ownership document with an issuer block and its tables, and the row the extractor
  builds from such an entry.
\<close>

definition ex_entry :: "string \<Rightarrow> (string \<times> xval) list \<Rightarrow> xval" where
  "ex_entry title amounts =
     XDict [(''securityTitle'', XDict [(''value'', XStr title)]),
            (''transactionDate'', XDict [(''value'', XStr ''2020-01-02'')]),
            (''transactionAmounts'', XDict amounts),
            (''ownershipNature'',
               XDict [(''directOrIndirectOwnership'', XDict [(''value'', XStr ''D'')])])]"

definition ex_shares :: "string \<Rightarrow> (string \<times> xval)" where
  "ex_shares n = (''transactionShares'', XDict [(''value'', XStr n)])"

definition ex_price :: "string \<Rightarrow> (string \<times> xval)" where
  "ex_price p = (''transactionPricePerShare'', XDict [(''value'', XStr p)])"

definition ex_doc :: "string \<Rightarrow> (string \<times> xval) list \<Rightarrow> xval" where
  "ex_doc symbol tables =
     XDict [(''ownershipDocument'',
       XDict ((''issuer'', XDict [(''issuerCik'', XStr ''0000123456''),
                                  (''issuerName'', XStr ''ABC Corp''),
                                  (''issuerTradingSymbol'', XStr symbol)]) # tables))]"

definition ex_row :: "string \<Rightarrow> string \<Rightarrow> string \<Rightarrow> xval \<Rightarrow> string \<Rightarrow> transaction" where
  "ex_row symbol title n p dt =
     \<lparr>issuerCik = XStr ''0000123456'', issuerName = XStr ''ABC Corp'',
      issuerTradingSymbol = XStr symbol, securityTitle = XStr title,
      transactionDate = XStr ''2020-01-02'', transactionShares = XStr n,
      transactionPricePerShare = p, directOrIndirectOwnership = XStr ''D'',
      derivative_type = dt\<rparr>"

section \<open>Properties\<close>

subsection \<open>Strings\<close>

lemma str_in_iff: "str_in n h \<longleftrightarrow> (\<exists>p s. h = p @ n @ s)"
proof (induction h)
  case Nil
  show ?case by auto
next
  case (Cons c cs)
  have pre: "take (length n) (c # cs) = n \<longleftrightarrow> (\<exists>s. c # cs = n @ s)"
    by (metis append_eq_conv_conj)
  show ?case
  proof
    assume "str_in n (c # cs)"
    then consider "take (length n) (c # cs) = n" | "str_in n cs" by auto
    then show "\<exists>p s. c # cs = p @ n @ s"
    proof cases
      case 1
      then obtain s where "c # cs = n @ s" using pre by blast
      then have "c # cs = [] @ n @ s" by simp
      then show ?thesis by blast
    next
      case 2
      then obtain p s where "cs = p @ n @ s" using Cons.IH by blast
      then have "c # cs = (c # p) @ n @ s" by simp
      then show ?thesis by blast
    qed
  next
    assume "\<exists>p s. c # cs = p @ n @ s"
    then obtain p s where ps: "c # cs = p @ n @ s" by blast
    show "str_in n (c # cs)"
    proof (cases p)
      case Nil
      with ps have "\<exists>s. c # cs = n @ s" by simp
      then have "take (length n) (c # cs) = n" using pre by blast
      then show ?thesis by simp
    next
      case (Cons a p')
      with ps have "cs = p' @ n @ s" by simp
      then show ?thesis using Cons.IH by auto
    qed
  qed
qed

lemma split_from_nonempty: "split_from c cur s \<noteq> []"
  by (induction s arbitrary: cur) auto

lemma py_split_nonempty: "py_split c s \<noteq> []"
  by (simp add: py_split_def split_from_nonempty)

lemma tw_all: "c \<notin> set xs \<Longrightarrow> takeWhile (\<lambda>x. x \<noteq> c) xs = xs"
  by (induction xs) auto

lemma tw_snoc_hit: "c \<notin> set xs \<Longrightarrow> takeWhile (\<lambda>x. x \<noteq> c) (xs @ c # ys) = xs"
  by (induction xs) auto

lemma tw_snoc_skip: "c \<in> set xs \<Longrightarrow> takeWhile (\<lambda>x. x \<noteq> c) (xs @ ys) = takeWhile (\<lambda>x. x \<noteq> c) xs"
  by (induction xs) auto

lemma takeWhile_rev_snoc:
  "takeWhile (\<lambda>x. x \<noteq> c) (rev (y # ys)) =
     (if c \<in> set ys then takeWhile (\<lambda>x. x \<noteq> c) (rev ys)
      else if y = c then rev ys else rev ys @ [y])"
proof (cases "c \<in> set ys")
  case True
  then show ?thesis using tw_snoc_skip [of c "rev ys" "[y]"] by simp
next
  case False
  show ?thesis
  proof (cases "y = c")
    case True
    then show ?thesis using False tw_snoc_hit [of c "rev ys" "[]"] by simp
  next
    case ne: False
    then have "c \<notin> set (rev ys @ [y])" using False by auto
    then show ?thesis using False ne tw_all [of c "rev ys @ [y]"] by simp
  qed
qed

lemma last_split_from:
  "last (split_from c cur s) =
     (if c \<in> set s then rev (takeWhile (\<lambda>x. x \<noteq> c) (rev s)) else cur @ s)"
proof (induction s arbitrary: cur)
  case Nil
  show ?case by simp
next
  case (Cons x xs)
  show ?case
  proof (cases "x = c")
    case True
    have "last (split_from c cur (x # xs)) = last (split_from c [] xs)"
      using True split_from_nonempty [of c "[]" xs] by simp
    also have "\<dots> = (if c \<in> set xs then rev (takeWhile (\<lambda>x. x \<noteq> c) (rev xs)) else xs)"
      using Cons.IH [of "[]"] by simp
    also have "\<dots> = rev (takeWhile (\<lambda>x. x \<noteq> c) (rev (x # xs)))"
      using True by (simp only: takeWhile_rev_snoc) simp
    finally show ?thesis using True by simp
  next
    case False
    have "last (split_from c cur (x # xs)) = last (split_from c (cur @ [x]) xs)"
      using False by simp
    also have "\<dots> = (if c \<in> set xs then rev (takeWhile (\<lambda>x. x \<noteq> c) (rev xs))
                       else (cur @ [x]) @ xs)"
      using Cons.IH [of "cur @ [x]"] by simp
    also have "\<dots> = (if c \<in> set (x # xs) then rev (takeWhile (\<lambda>x. x \<noteq> c) (rev (x # xs)))
                       else cur @ x # xs)"
      using False by (simp only: takeWhile_rev_snoc) simp
    finally show ?thesis .
  qed
qed

text \<open>The last segment is what follows the last separator, or the whole string.\<close>

lemma last_segment_suffix:
  "last_segment c s = rev (takeWhile (\<lambda>x. x \<noteq> c) (rev s))"
proof (cases "c \<in> set s")
  case True
  then show ?thesis
    using last_split_from [of c "[]" s] by (simp add: last_segment_def py_split_def)
next
  case False
  then have "takeWhile (\<lambda>x. x \<noteq> c) (rev s) = rev s"
    by (simp add: tw_all)
  then have "rev (takeWhile (\<lambda>x. x \<noteq> c) (rev s)) = s"
    by (simp only: rev_rev_ident)
  moreover have "last_segment c s = s"
    using False last_split_from [of c "[]" s] by (simp add: last_segment_def py_split_def)
  ultimately show ?thesis by (simp only:)
qed

subsection \<open>Faults of the lookups\<close>

lemma py_get_error: "py_get v k = Inl e \<Longrightarrow> e = KeyError \<or> e = TypeError"
  by (cases v) (auto split: option.splits)

lemma py_get2_error: "py_get2 v k1 k2 = Inl e \<Longrightarrow> e = KeyError \<or> e = TypeError"
  by (auto simp: py_get2_def split: sum.splits dest: py_get_error)

lemma py_get3_error: "py_get3 v k1 k2 k3 = Inl e \<Longrightarrow> e = KeyError \<or> e = TypeError"
  by (auto simp: py_get3_def split: sum.splits dest: py_get_error py_get2_error)

lemma py_in_error: "py_in k v = Inl e \<Longrightarrow> e = TypeError"
  by (cases v) auto

lemma passes_filter_error:
  "passes_filter data d n = Inl e \<Longrightarrow> e = KeyError \<or> e = TypeError"
  by (auto simp: passes_filter_def split: sum.splits if_splits
           dest: py_get2_error py_get3_error py_in_error)

lemma passes_filter_True:
  "passes_filter data d n = Inr True \<longleftrightarrow>
     (\<exists>t. py_get2 d ''securityTitle'' ''value'' = Inr t \<and> py_in ''Common Stock'' t = Inr True \<and>
          py_get3 data ''ownershipDocument'' ''issuer'' ''issuerTradingSymbol'' = Inr (XStr n))"
  by (auto simp: passes_filter_def split: sum.splits if_splits)

lemma make_row_Inr:
  "make_row data d dt p = Inr r \<Longrightarrow>
     py_get3 data ''ownershipDocument'' ''issuer'' ''issuerCik'' = Inr (issuerCik r) \<and>
     py_get3 data ''ownershipDocument'' ''issuer'' ''issuerName'' = Inr (issuerName r) \<and>
     py_get3 data ''ownershipDocument'' ''issuer'' ''issuerTradingSymbol'' = Inr (issuerTradingSymbol r) \<and>
     py_get2 d ''securityTitle'' ''value'' = Inr (securityTitle r) \<and>
     py_get2 d ''transactionDate'' ''value'' = Inr (transactionDate r) \<and>
     py_get3 d ''transactionAmounts'' ''transactionShares'' ''value'' = Inr (transactionShares r) \<and>
     py_get3 d ''ownershipNature'' ''directOrIndirectOwnership'' ''value'' = Inr (directOrIndirectOwnership r) \<and>
     transactionPricePerShare r = p \<and> derivative_type r = dt"
  unfolding make_row_def by (auto split: sum.splits)

lemma make_row_Inl:
  "make_row data d dt p = Inl e \<Longrightarrow> e = KeyError \<or> e = TypeError"
  unfolding make_row_def by (auto split: sum.splits dest: py_get2_error py_get3_error)

lemma make_row_absent:
  "py_get3 data ''ownershipDocument'' ''issuer'' ''issuerCik'' = Inl e \<or>
   py_get3 data ''ownershipDocument'' ''issuer'' ''issuerName'' = Inl e \<or>
   py_get3 data ''ownershipDocument'' ''issuer'' ''issuerTradingSymbol'' = Inl e \<or>
   py_get2 d ''securityTitle'' ''value'' = Inl e \<or>
   py_get2 d ''transactionDate'' ''value'' = Inl e \<or>
   py_get3 d ''transactionAmounts'' ''transactionShares'' ''value'' = Inl e \<or>
   py_get3 d ''ownershipNature'' ''directOrIndirectOwnership'' ''value'' = Inl e
   \<Longrightarrow> \<exists>e'. make_row data d dt p = Inl e'"
  unfolding make_row_def by (auto split: sum.splits)

lemma make_row_price_free:
  "make_row data d dt p = Inl e \<longleftrightarrow> make_row data d dt q = Inl e"
  unfolding make_row_def by (auto split: sum.splits)

lemma extract_rows_Inr:
  "extract_rows data dt n ds acc = Inr out \<Longrightarrow>
     \<exists>rows. out = acc @ rows \<and>
       list_all2 (\<lambda>d r. make_row data d dt (read_price d) = Inr r)
         (filter (\<lambda>d. passes_filter data d n = Inr True) ds) rows"
proof (induction ds arbitrary: acc out)
  case Nil
  then show ?case by simp
next
  case (Cons d ds)
  show ?case
  proof (cases "passes_filter data d n")
    case (Inl e)
    with Cons.prems show ?thesis by simp
  next
    case (Inr ok)
    show ?thesis
    proof (cases ok)
      case False
      with Inr Cons.prems have "extract_rows data dt n ds acc = Inr out" by simp
      from Cons.IH [OF this] show ?thesis using Inr False by simp
    next
      case True
      show ?thesis
      proof (cases "make_row data d dt (read_price d)")
        case (Inl e)
        with Inr True Cons.prems show ?thesis by simp
      next
        case row: (Inr row)
        with Inr True Cons.prems
        have "extract_rows data dt n ds (acc @ [row]) = Inr out" by simp
        from Cons.IH [OF this] obtain rows where
          "out = (acc @ [row]) @ rows"
          "list_all2 (\<lambda>d r. make_row data d dt (read_price d) = Inr r)
             (filter (\<lambda>d. passes_filter data d n = Inr True) ds) rows"
          by blast
        then have "out = acc @ (row # rows) \<and>
          list_all2 (\<lambda>d r. make_row data d dt (read_price d) = Inr r)
             (filter (\<lambda>d. passes_filter data d n = Inr True) (d # ds)) (row # rows)"
          using Inr True row by simp
        then show ?thesis by blast
      qed
    qed
  qed
qed

lemma extract_rows_Inl:
  "extract_rows data dt n ds acc = Inl e \<Longrightarrow>
     \<exists>d\<in>set ds. passes_filter data d n = Inl e \<or>
        (passes_filter data d n = Inr True \<and> make_row data d dt (read_price d) = Inl e)"
proof (induction ds arbitrary: acc)
  case Nil
  then show ?case by simp
next
  case (Cons d ds)
  then show ?case
    by (fastforce split: sum.splits if_splits)
qed

lemma extract_rows_raises:
  "d \<in> set ds \<Longrightarrow>
   (\<exists>e. passes_filter data d n = Inl e) \<or>
     (passes_filter data d n = Inr True \<and> (\<exists>e. make_row data d dt (read_price d) = Inl e)) \<Longrightarrow>
   \<exists>e. extract_rows data dt n ds acc = Inl e"
proof (induction ds arbitrary: acc)
  case Nil
  then show ?case by simp
next
  case (Cons x xs)
  show ?case
  proof (cases "x = d")
    case True
    with Cons.prems(2) show ?thesis by (auto split: sum.splits)
  next
    case False
    with Cons.prems have "d \<in> set xs" by simp
    from Cons.IH [OF this Cons.prems(2)] show ?thesis
      by (auto split: sum.splits)
  qed
qed

subsection \<open>Index locator\<close>

lemma find_index_file_find:
  "find_index_file (map Some links) = Inr (find index_match links)"
  by (induction links) (auto simp: index_match_def)

text \<open>
  Claim C6.  On a list of links (strings), \<^verbatim>\<open>find_index_file\<close> returns without a fault; it
  returns a link exactly when some link of the list has \<open>index.html\<close> as the last segment
  of its split on \<open>-\<close>; and the link returned is the first such link of the list: it
  matches, and no link before it does.
\<close>

theorem find_index_file_first_match:
  "(\<exists>r. find_index_file (map Some links) = Inr r) \<and>
   ((\<exists>u. find_index_file (map Some links) = Inr (Some u)) \<longleftrightarrow>
      (\<exists>u\<in>set links. last_segment CHR ''-'' u = ''index.html'')) \<and>
   (\<forall>u. find_index_file (map Some links) = Inr (Some u) \<longrightarrow>
      (\<exists>pre post. links = pre @ u # post \<and> last_segment CHR ''-'' u = ''index.html'' \<and>
         (\<forall>v\<in>set pre. last_segment CHR ''-'' v \<noteq> ''index.html'')))"
proof (intro conjI allI impI)
  show "\<exists>r. find_index_file (map Some links) = Inr r"
    by (simp add: find_index_file_find)
  show "(\<exists>u. find_index_file (map Some links) = Inr (Some u)) \<longleftrightarrow>
      (\<exists>u\<in>set links. last_segment CHR ''-'' u = ''index.html'')"
  proof -
    have "(\<exists>u. find index_match links = Some u) \<longleftrightarrow> find index_match links \<noteq> None"
      by simp
    also have "\<dots> \<longleftrightarrow> (\<exists>u\<in>set links. index_match u)"
      by (auto simp: find_None_iff)
    finally show ?thesis
      by (simp add: find_index_file_find index_match_def)
  qed
next
  fix u
  assume "find_index_file (map Some links) = Inr (Some u)"
  then have "find index_match links = Some u" by (simp add: find_index_file_find)
  then obtain i where i: "i < length links" "index_match (links ! i)" "u = links ! i"
    "\<forall>j<i. \<not> index_match (links ! j)"
    by (auto simp: find_Some_iff)
  have "links = take i links @ u # drop (Suc i) links"
    using i(1,3) by (simp add: id_take_nth_drop)
  moreover have "\<forall>v\<in>set (take i links). last_segment CHR ''-'' v \<noteq> ''index.html''"
    using i(1,4) by (auto simp: in_set_conv_nth index_match_def)
  ultimately show "\<exists>pre post. links = pre @ u # post \<and> last_segment CHR ''-'' u = ''index.html'' \<and>
         (\<forall>v\<in>set pre. last_segment CHR ''-'' v \<noteq> ''index.html'')"
    using i(2,3) unfolding index_match_def by blast
qed

theorem find_index_file_first_match_witness:
  "find_index_file (map Some [''form4.xml'', ''0001-index.html'', ''0002-index.html''])
     = Inr (Some ''0001-index.html'') \<and>
   (\<exists>u\<in>set [''form4.xml'', ''0001-index.html'', ''0002-index.html''].
       last_segment CHR ''-'' u = ''index.html'') \<and>
   (\<exists>pre post. [''form4.xml'', ''0001-index.html'', ''0002-index.html''] = pre @ ''0001-index.html'' # post \<and>
       (\<forall>v\<in>set pre. last_segment CHR ''-'' v \<noteq> ''index.html''))"
proof -
  have e: "find_index_file (map Some [''form4.xml'', ''0001-index.html'', ''0002-index.html''])
     = Inr (Some ''0001-index.html'')"
    by (simp add: last_segment_def py_split_def)
  from find_index_file_first_match [of "[''form4.xml'', ''0001-index.html'', ''0002-index.html'']"] e
  show ?thesis by blast
qed

subsection \<open>Form 4 locator\<close>

lemma row_matches_qualifies:
  "3 \<le> length r \<Longrightarrow> row_matches r = Inr (qualifies r)"
  by (auto simp: row_matches_def form4_label_def xml_extension_def py_nth_def qualifies_def)

lemma row_href_cases:
  "3 \<le> length r \<Longrightarrow>
     row_href r = (case cell_anchors (r ! 2) of [] \<Rightarrow> Inl AttributeError | a # _ \<Rightarrow> Inr a)"
  by (simp add: row_href_def py_nth_def)

lemma scan_rows_skip:
  "\<forall>p\<in>set pre. 3 \<le> length p \<and> \<not> qualifies p \<Longrightarrow> scan_rows (pre @ rest) = scan_rows rest"
  by (induction pre) (auto simp: row_matches_qualifies)

lemma row_matches_short: "length r < 3 \<Longrightarrow> row_matches r = Inl IndexError"
  by (auto simp: row_matches_def form4_label_def xml_extension_def py_nth_def)

text \<open>
  Claim C1, as amended.  On an index page that has a table, \<^verbatim>\<open>get_form_4_url\<close> scans the
  rows after the first in order.  When the rows before row \<open>r\<close> have three cells or more
  and do not qualify, and \<open>r\<close> has three cells or more and qualifies, the result is the
  target of the first anchor of the third cell of \<open>r\<close>, and an \<^verbatim>\<open>AttributeError\<close> when
  that cell holds no anchor.  When every row has three cells or more and none qualifies,
  the result is \<^verbatim>\<open>None\<close>.  A row qualifies when its second cell's text contains
  \<open>FORM 4\<close> (a substring test) or its third cell's text contains \<open>form4\<close>, and its
  third cell's text, split on the dot, has last segment \<open>xml\<close>.
\<close>

theorem get_form_4_url_first_match:
  assumes "fetch_html w url headers = Inr (t # ts)"
  shows "(drop 1 (table_rows t) = pre @ r # post \<and>
            (\<forall>p\<in>set pre. 3 \<le> length p \<and> \<not> qualifies p) \<and>
            3 \<le> length r \<and> qualifies r
          \<longrightarrow> get_form_4_url w url headers =
                (case cell_anchors (r ! 2) of [] \<Rightarrow> Inl AttributeError | a # _ \<Rightarrow> Inr a)) \<and>
         ((\<forall>p\<in>set (drop 1 (table_rows t)). 3 \<le> length p \<and> \<not> qualifies p)
          \<longrightarrow> get_form_4_url w url headers = Inr None)"
proof (intro conjI impI)
  assume h: "drop 1 (table_rows t) = pre @ r # post \<and>
            (\<forall>p\<in>set pre. 3 \<le> length p \<and> \<not> qualifies p) \<and>
            3 \<le> length r \<and> qualifies r"
  then have "scan_rows (pre @ r # post) = scan_rows (r # post)"
    using scan_rows_skip [of pre "r # post"] by blast
  also have "\<dots> = row_href r"
    using h by (simp add: row_matches_qualifies)
  also have "\<dots> = (case cell_anchors (r ! 2) of [] \<Rightarrow> Inl AttributeError | a # _ \<Rightarrow> Inr a)"
    using h by (simp add: row_href_cases)
  finally show "get_form_4_url w url headers =
                (case cell_anchors (r ! 2) of [] \<Rightarrow> Inl AttributeError | a # _ \<Rightarrow> Inr a)"
    using assms h by (simp add: get_form_4_url_def get_table_rows_def)
next
  assume h: "\<forall>p\<in>set (drop 1 (table_rows t)). 3 \<le> length p \<and> \<not> qualifies p"
  have "scan_rows (drop 1 (table_rows t) @ []) = scan_rows []"
    using h by (rule scan_rows_skip)
  then show "get_form_4_url w url headers = Inr None"
    using assms by (simp add: get_form_4_url_def get_table_rows_def)
qed

text \<open>Unfolding for the evaluation of the examples.\<close>

lemmas eval_web = web_of_def get_form_4_url_def get_table_rows_def ex_index_page_def ex_cell_def
  row_matches_def form4_label_def xml_extension_def row_href_def py_nth_def
  last_segment_def py_split_def ex_listing_def get_urls_def

text \<open>
  The label test is not an equality: a row labelled \<open>FORM 4/A\<close> whose document text
  \<open>doc.xml\<close> does not contain \<open>form4\<close> is returned.
\<close>

theorem get_form_4_url_label_counterexample:
  "get_form_4_url
     (web_of [(''idx'', ex_index_page
        [[ex_cell ''Seq'' [], ex_cell ''Description'' [], ex_cell ''Document'' []],
         [ex_cell ''1'' [], ex_cell ''FORM 4/A'' [], ex_cell ''doc.xml'' [Some ''a.xml'']]])] [])
     ''idx'' [] = Inr (Some ''a.xml'') \<and>
   ''FORM 4/A'' \<noteq> ''FORM 4'' \<and> \<not> str_in ''form4'' ''doc.xml''"
  by (simp add: eval_web)

text \<open>
  A page whose second data row is the first to qualify, the page of the specification
  whose only row links a \<open>.txt\<close> document, and a page whose qualifying row holds no
  anchor.
\<close>

theorem get_form_4_url_first_match_witness:
  "get_form_4_url
     (web_of [(''idx'', ex_index_page
        [[ex_cell ''Seq'' [], ex_cell ''Description'' [], ex_cell ''Document'' []],
         [ex_cell ''1'' [], ex_cell ''GRAPHIC'' [], ex_cell ''logo.jpg'' [Some ''logo.jpg'']],
         [ex_cell ''2'' [], ex_cell ''FORM 4'' [], ex_cell ''form4.xml'' [Some ''a.xml'']],
         [ex_cell ''3'' [], ex_cell ''FORM 4'' [], ex_cell ''other.xml'' [Some ''b.xml'']]])] [])
     ''idx'' [] = Inr (Some ''a.xml'') \<and>
   get_form_4_url
     (web_of [(''idx'', ex_index_page
        [[ex_cell ''Seq'' [], ex_cell ''Description'' [], ex_cell ''Document'' []],
         [ex_cell ''1'' [], ex_cell ''FORM 4'' [], ex_cell ''a.txt'' [Some ''a.txt'']]])] [])
     ''idx'' [] = Inr None \<and>
   get_form_4_url
     (web_of [(''idx'', ex_index_page
        [[ex_cell ''Seq'' [], ex_cell ''Description'' [], ex_cell ''Document'' []],
         [ex_cell ''1'' [], ex_cell ''FORM 4'' [], ex_cell ''form4.xml'' []]])] [])
     ''idx'' [] = Inl AttributeError"
proof -
  let ?hdr = "[ex_cell ''Seq'' [], ex_cell ''Description'' [], ex_cell ''Document'' []]"
  let ?r1 = "[ex_cell ''1'' [], ex_cell ''GRAPHIC'' [], ex_cell ''logo.jpg'' [Some ''logo.jpg'']]"
  let ?r2 = "[ex_cell ''2'' [], ex_cell ''FORM 4'' [], ex_cell ''form4.xml'' [Some ''a.xml'']]"
  let ?r3 = "[ex_cell ''3'' [], ex_cell ''FORM 4'' [], ex_cell ''other.xml'' [Some ''b.xml'']]"
  let ?t = "\<lparr>table_anchors = [], table_rows = [?hdr, ?r1, ?r2, ?r3]\<rparr>"
  let ?w = "web_of [(''idx'', ex_index_page [?hdr, ?r1, ?r2, ?r3])] []"
  have f: "fetch_html ?w ''idx'' [] = Inr (?t # [])"
    by (simp add: web_of_def ex_index_page_def)
  have q: "drop 1 (table_rows ?t) = [?r1] @ ?r2 # [?r3] \<and>
            (\<forall>p\<in>set [?r1]. 3 \<le> length p \<and> \<not> qualifies p) \<and>
            3 \<le> length ?r2 \<and> qualifies ?r2"
    by (simp add: qualifies_def ex_cell_def last_segment_def py_split_def)
  have an: "cell_anchors (?r2 ! 2) = [Some ''a.xml'']"
    by (simp add: ex_cell_def)
  let ?s = "[ex_cell ''1'' [], ex_cell ''FORM 4'' [], ex_cell ''a.txt'' [Some ''a.txt'']]"
  let ?t2 = "\<lparr>table_anchors = [], table_rows = [?hdr, ?s]\<rparr>"
  let ?w2 = "web_of [(''idx'', ex_index_page [?hdr, ?s])] []"
  have f2: "fetch_html ?w2 ''idx'' [] = Inr (?t2 # [])"
    by (simp add: web_of_def ex_index_page_def)
  have q2: "\<forall>p\<in>set (drop 1 (table_rows ?t2)). 3 \<le> length p \<and> \<not> qualifies p"
    by (simp add: qualifies_def ex_cell_def last_segment_def py_split_def)
  let ?n = "[ex_cell ''1'' [], ex_cell ''FORM 4'' [], ex_cell ''form4.xml'' []]"
  let ?t3 = "\<lparr>table_anchors = [], table_rows = [?hdr, ?n]\<rparr>"
  let ?w3 = "web_of [(''idx'', ex_index_page [?hdr, ?n])] []"
  have f3: "fetch_html ?w3 ''idx'' [] = Inr (?t3 # [])"
    by (simp add: web_of_def ex_index_page_def)
  have q3: "drop 1 (table_rows ?t3) = [] @ ?n # [] \<and>
            (\<forall>p\<in>set []. 3 \<le> length p \<and> \<not> qualifies p) \<and>
            3 \<le> length ?n \<and> qualifies ?n"
    by (simp add: qualifies_def ex_cell_def last_segment_def py_split_def)
  have an3: "cell_anchors (?n ! 2) = []"
    by (simp add: ex_cell_def)
  from get_form_4_url_first_match [OF f, of "[?r1]" ?r2 "[?r3]"] q
  have "get_form_4_url ?w ''idx'' [] =
          (case cell_anchors (?r2 ! 2) of [] \<Rightarrow> Inl AttributeError | a # _ \<Rightarrow> Inr a)"
    by blast
  then have a: "get_form_4_url ?w ''idx'' [] = Inr (Some ''a.xml'')"
    by (simp only: an list.case)
  from get_form_4_url_first_match [OF f2, of "[]" "[]" "[]"] q2
  have b: "get_form_4_url ?w2 ''idx'' [] = Inr None" by blast
  from get_form_4_url_first_match [OF f3, of "[]" ?n "[]"] q3
  have "get_form_4_url ?w3 ''idx'' [] =
          (case cell_anchors (?n ! 2) of [] \<Rightarrow> Inl AttributeError | a # _ \<Rightarrow> Inr a)"
    by blast
  then have c: "get_form_4_url ?w3 ''idx'' [] = Inl AttributeError"
    by (simp only: an3 list.case)
  from a b c show ?thesis by blast
qed

subsection \<open>Listing parser\<close>

text \<open>A page with no table: \<^verbatim>\<open>get_urls\<close> raises, it does not return the empty list.\<close>

theorem get_urls_no_table_counterexample:
  "get_urls (web_of [(''dir'', [])] []) ''dir'' [] = Inl AttributeError"
  by (simp add: eval_web)

text \<open>
  Claim C4, as amended.  On a page with no table element \<^verbatim>\<open>get_urls\<close> raises an
  \<^verbatim>\<open>AttributeError\<close>; on a page with a table it returns the targets of the anchors of the
  first table in order, so the empty list exactly when that table has no anchor.
\<close>

theorem get_urls_first_table:
  "(fetch_html w url headers = Inr [] \<longrightarrow> get_urls w url headers = Inl AttributeError) \<and>
   (fetch_html w url headers = Inr (t # ts) \<longrightarrow> get_urls w url headers = Inr (table_anchors t))"
  by (simp add: get_urls_def)

theorem get_urls_first_table_witness:
  "get_urls (web_of [(''dir'', [])] []) ''dir'' [] = Inl AttributeError \<and>
   get_urls (web_of [(''dir'', ex_listing [])] []) ''dir'' [] = Inr []"
proof -
  have a: "fetch_html (web_of [(''dir'', [])] []) ''dir'' [] = Inr []"
    by (simp add: web_of_def)
  have b: "fetch_html (web_of [(''dir'', ex_listing [])] []) ''dir'' []
             = Inr (\<lparr>table_anchors = [], table_rows = []\<rparr> # [])"
    by (simp add: web_of_def ex_listing_def)
  from get_urls_first_table [of "web_of [(''dir'', [])] []" "''dir''" "[]"] a
  have "get_urls (web_of [(''dir'', [])] []) ''dir'' [] = Inl AttributeError" by blast
  moreover from get_urls_first_table [of "web_of [(''dir'', ex_listing [])] []" "''dir''" "[]"
      "\<lparr>table_anchors = [], table_rows = []\<rparr>" "[]"] b
  have "get_urls (web_of [(''dir'', ex_listing [])] []) ''dir'' [] = Inr []" by simp
  ultimately show ?thesis by blast
qed

subsection \<open>Crawl\<close>

text \<open>
  A folder whose listing has no index link: the \<^verbatim>\<open>None\<close> of \<^verbatim>\<open>find_index_file\<close>
  reaches \<^verbatim>\<open>base_url + index_file_url\<close>, which raises.
\<close>

lemma load_folders_no_index:
  assumes "get_urls w (base_url @ folder_url) headers = Inr file_url_list"
    and "find_index_file file_url_list = Inr None"
  shows "load_folders w base_url headers cik_name (Some folder_url # rest) final_data_df = Inl TypeError"
  using assms by (simp add: py_concat_def)

text \<open>
  Claim C5.  The claim is that a filing folder with no index link is skipped and the crawl
  goes on.  On an archive whose first folder \<open>/f1\<close> lists only \<open>/f1/form4.xml\<close> and
  whose second folder has an index page, \<^verbatim>\<open>load_data\<close> raises a \<^verbatim>\<open>TypeError\<close> at
  the first folder and returns no table.
\<close>

theorem load_data_no_index_raises:
  "load_data
     (web_of [(''https://sec/cik/1'', ex_listing [Some ''/f1'', Some ''/f2'']),
              (''https://sec/f1'', ex_listing [Some ''/f1/form4.xml'']),
              (''https://sec/f2'', ex_listing [Some ''/f2/0002-index.html''])] [])
     [(''ABC'', ''1'')] ''https://sec'' ''/cik/'' [] = Inl TypeError"
  by (simp add: load_data_def py_concat_def eval_web)

subsection \<open>Ownership extractor\<close>

text \<open>Unfolding for the evaluation of the examples.\<close>

lemmas eval_doc = extract_data_def select_transactions_def transaction_list_def as_list_def
  passes_filter_def read_price_def make_row_def py_get2_def py_get3_def
  ex_doc_def ex_entry_def ex_shares_def ex_price_def ex_row_def

lemma py_get_Inr_dict: "py_get v k = Inr x \<Longrightarrow> \<exists>d. v = XDict d \<and> map_of d k = Some x"
  by (cases v) (auto split: option.splits)

lemma select_transactions_kind:
  "select_transactions data dt = Inr (Some ds) \<Longrightarrow>
     dt = ''derivativeTable'' \<or> dt = ''nonDerivativeTable''"
  unfolding select_transactions_def
  by (auto split: sum.splits if_splits option.splits)

text \<open>
  Every row returned comes from an entry of the selected list that passed the filter.
\<close>

lemma extract_data_Inr_mem:
  assumes "extract_data data dt n = Inr recs" and "r \<in> set recs"
  shows "\<exists>ds d. select_transactions data dt = Inr (Some ds) \<and> d \<in> set ds \<and>
           passes_filter data d n = Inr True \<and> make_row data d dt (read_price d) = Inr r"
proof -
  from assms obtain ds where sel: "select_transactions data dt = Inr (Some ds)"
    and rows: "extract_rows data dt n ds [] = Inr recs"
    by (auto simp: extract_data_def split: sum.splits option.splits)
  let ?ps = "filter (\<lambda>d. passes_filter data d n = Inr True) ds"
  from extract_rows_Inr [OF rows]
  have l2: "list_all2 (\<lambda>d r. make_row data d dt (read_price d) = Inr r) ?ps recs"
    by simp
  from assms(2) obtain i where i: "i < length recs" "r = recs ! i"
    by (auto simp: in_set_conv_nth)
  from l2 i have len: "i < length ?ps"
    and mk: "make_row data (?ps ! i) dt (read_price (?ps ! i)) = Inr r"
    by (auto simp: list_all2_conv_all_nth)
  from len have "?ps ! i \<in> set ?ps" by (rule nth_mem)
  then have "?ps ! i \<in> set ds \<and> passes_filter data (?ps ! i) n = Inr True" by simp
  with sel mk show ?thesis by blast
qed

text \<open>
  Claim C2.  Every row that \<^verbatim>\<open>extract_data\<close> returns comes from an entry whose security
  title satisfies \<^verbatim>\<open>'Common Stock' in title\<close>, which for a title that is a string means
  that \<open>Common Stock\<close> occurs in it as a substring, in a document whose issuer trading
  symbol is the string \<open>cik_name\<close> itself; a row titled \<open>Stock Option\<close> is never
  returned.
\<close>

theorem extract_data_emits_only_filtered:
  assumes "extract_data data dt cik_name = Inr recs" and "r \<in> set recs"
  shows "py_get3 data ''ownershipDocument'' ''issuer'' ''issuerTradingSymbol'' = Inr (XStr cik_name) \<and>
         issuerTradingSymbol r = XStr cik_name \<and>
         py_in ''Common Stock'' (securityTitle r) = Inr True \<and>
         (\<forall>s. securityTitle r = XStr s \<longrightarrow> (\<exists>p q. s = p @ ''Common Stock'' @ q)) \<and>
         securityTitle r \<noteq> XStr ''Stock Option'' \<and>
         (\<exists>ds d. select_transactions data dt = Inr (Some ds) \<and> d \<in> set ds \<and>
                  py_get2 d ''securityTitle'' ''value'' = Inr (securityTitle r))"
proof -
  from extract_data_Inr_mem [OF assms] obtain ds d where
    sel: "select_transactions data dt = Inr (Some ds)" and d: "d \<in> set ds"
    and pf: "passes_filter data d cik_name = Inr True"
    and mk: "make_row data d dt (read_price d) = Inr r"
    by blast
  from pf obtain t where t: "py_get2 d ''securityTitle'' ''value'' = Inr t"
    "py_in ''Common Stock'' t = Inr True"
    "py_get3 data ''ownershipDocument'' ''issuer'' ''issuerTradingSymbol'' = Inr (XStr cik_name)"
    unfolding passes_filter_True by blast
  from make_row_Inr [OF mk] have
    title: "py_get2 d ''securityTitle'' ''value'' = Inr (securityTitle r)" and
    symbol: "py_get3 data ''ownershipDocument'' ''issuer'' ''issuerTradingSymbol''
               = Inr (issuerTradingSymbol r)"
    by simp_all
  from t(1) title have tr: "securityTitle r = t" by simp
  from t(3) symbol have sr: "issuerTradingSymbol r = XStr cik_name" by simp
  have cs: "py_in ''Common Stock'' (securityTitle r) = Inr True" using t(2) tr by simp
  have sub: "\<forall>s. securityTitle r = XStr s \<longrightarrow> (\<exists>p q. s = p @ ''Common Stock'' @ q)"
  proof (intro allI impI)
    fix s assume "securityTitle r = XStr s"
    with cs have "str_in ''Common Stock'' s" by simp
    then show "\<exists>p q. s = p @ ''Common Stock'' @ q" by (simp only: str_in_iff)
  qed
  have "\<not> str_in ''Common Stock'' ''Stock Option''" by simp
  with cs have so: "securityTitle r \<noteq> XStr ''Stock Option''" by auto
  from t(3) sr cs sub so sel d title show ?thesis by blast
qed

lemma as_list_mem:
  "d \<in> set (as_list v) \<longleftrightarrow> (\<exists>l. v = XList l \<and> d \<in> set l) \<or> ((\<forall>l. v \<noteq> XList l) \<and> d = v)"
  by (cases v) (auto simp: as_list_def)

lemma transaction_list_Some:
  "transaction_list table key = Inr (Some v) \<Longrightarrow> py_get table key = Inr v"
  by (auto simp: transaction_list_def split: sum.splits if_splits)

text \<open>
  The entries selected are those under the transaction key of the table named \<open>dt\<close>.
\<close>

lemma select_transactions_source:
  assumes "select_transactions data dt = Inr (Some ds)"
  shows "\<exists>root table v.
           py_get data ''ownershipDocument'' = Inr root \<and> py_get root dt = Inr table \<and>
           py_get table (if dt = ''derivativeTable'' then ''derivativeTransaction''
                         else ''nonDerivativeTransaction'') = Inr v \<and>
           ds = as_list v"
proof -
  from assms obtain root where root: "py_get data ''ownershipDocument'' = Inr root"
    by (auto simp: select_transactions_def split: sum.splits)
  from assms root obtain table where table: "py_get root dt = Inr table" "table \<noteq> XNull"
    by (auto simp: select_transactions_def split: sum.splits if_splits)
  from select_transactions_kind [OF assms]
  have kind: "dt = ''derivativeTable'' \<or> dt = ''nonDerivativeTable''" .
  from assms root table kind obtain v where
    v: "transaction_list table (if dt = ''derivativeTable'' then ''derivativeTransaction''
                         else ''nonDerivativeTransaction'') = Inr (Some v)" "ds = as_list v"
    by (auto simp: select_transactions_def split: sum.splits if_splits option.splits)
  from transaction_list_Some [OF v(1)] root table(1) v(2) show ?thesis by blast
qed

text \<open>
  Claim C3, as amended.  Every row that \<^verbatim>\<open>extract_data\<close> returns carries as its
  \<open>derivative_type\<close> the table name the function was called with, which is one of
  \<open>derivativeTable\<close> and \<open>nonDerivativeTable\<close>, and the row comes from that table:
  the document holds, under the ownership root, under that table name and under the
  transaction key of that table, a value that is the entry the row was read from or a
  list holding it; title, date, share count and ownership nature of the row are the
  values at their paths in that entry, and the price is the value at its path or
  \<^verbatim>\<open>None\<close>.
\<close>

theorem extract_data_tag_is_table_kind:
  assumes "extract_data data dt cik_name = Inr recs" and "r \<in> set recs"
  shows "derivative_type r = dt \<and>
         (dt = ''derivativeTable'' \<or> dt = ''nonDerivativeTable'') \<and>
         (\<exists>root table v d.
            py_get data ''ownershipDocument'' = Inr root \<and>
            py_get root dt = Inr table \<and>
            py_get table (if dt = ''derivativeTable'' then ''derivativeTransaction''
                          else ''nonDerivativeTransaction'') = Inr v \<and>
            ((\<exists>l. v = XList l \<and> d \<in> set l) \<or> ((\<forall>l. v \<noteq> XList l) \<and> d = v)) \<and>
            py_get2 d ''securityTitle'' ''value'' = Inr (securityTitle r) \<and>
            py_get2 d ''transactionDate'' ''value'' = Inr (transactionDate r) \<and>
            py_get3 d ''transactionAmounts'' ''transactionShares'' ''value''
              = Inr (transactionShares r) \<and>
            py_get3 d ''ownershipNature'' ''directOrIndirectOwnership'' ''value''
              = Inr (directOrIndirectOwnership r) \<and>
            transactionPricePerShare r =
              (case py_get3 d ''transactionAmounts'' ''transactionPricePerShare'' ''value'' of
                 Inl e \<Rightarrow> XNull | Inr p \<Rightarrow> p))"
proof -
  from extract_data_Inr_mem [OF assms] obtain ds d where
    sel: "select_transactions data dt = Inr (Some ds)" and d: "d \<in> set ds"
    and mk: "make_row data d dt (read_price d) = Inr r"
    by blast
  from select_transactions_source [OF sel] obtain root table v where
    src: "py_get data ''ownershipDocument'' = Inr root" "py_get root dt = Inr table"
      "py_get table (if dt = ''derivativeTable'' then ''derivativeTransaction''
                     else ''nonDerivativeTransaction'') = Inr v"
      "ds = as_list v"
    by blast
  from d src(4) have mem: "(\<exists>l. v = XList l \<and> d \<in> set l) \<or> ((\<forall>l. v \<noteq> XList l) \<and> d = v)"
    by (simp only: as_list_mem)
  from make_row_Inr [OF mk] have fields:
    "py_get2 d ''securityTitle'' ''value'' = Inr (securityTitle r)"
    "py_get2 d ''transactionDate'' ''value'' = Inr (transactionDate r)"
    "py_get3 d ''transactionAmounts'' ''transactionShares'' ''value'' = Inr (transactionShares r)"
    "py_get3 d ''ownershipNature'' ''directOrIndirectOwnership'' ''value''
       = Inr (directOrIndirectOwnership r)"
    "transactionPricePerShare r = read_price d"
    "derivative_type r = dt"
    by simp_all
  from fields(5) have price: "transactionPricePerShare r =
              (case py_get3 d ''transactionAmounts'' ''transactionPricePerShare'' ''value'' of
                 Inl e \<Rightarrow> XNull | Inr p \<Rightarrow> p)"
    by (simp add: read_price_def)
  from src(1,2,3) mem fields(1,2,3,4) price
  have "\<exists>root table v d.
            py_get data ''ownershipDocument'' = Inr root \<and>
            py_get root dt = Inr table \<and>
            py_get table (if dt = ''derivativeTable'' then ''derivativeTransaction''
                          else ''nonDerivativeTransaction'') = Inr v \<and>
            ((\<exists>l. v = XList l \<and> d \<in> set l) \<or> ((\<forall>l. v \<noteq> XList l) \<and> d = v)) \<and>
            py_get2 d ''securityTitle'' ''value'' = Inr (securityTitle r) \<and>
            py_get2 d ''transactionDate'' ''value'' = Inr (transactionDate r) \<and>
            py_get3 d ''transactionAmounts'' ''transactionShares'' ''value''
              = Inr (transactionShares r) \<and>
            py_get3 d ''ownershipNature'' ''directOrIndirectOwnership'' ''value''
              = Inr (directOrIndirectOwnership r) \<and>
            transactionPricePerShare r =
              (case py_get3 d ''transactionAmounts'' ''transactionPricePerShare'' ''value'' of
                 Inl e \<Rightarrow> XNull | Inr p \<Rightarrow> p)"
    by blast
  with fields(6) select_transactions_kind [OF sel] show ?thesis by blast
qed

text \<open>
  Claim C7, as amended.  Let the ownership root be a dict and \<open>key\<close> the transaction key
  of the table named \<open>dt\<close>.  When the root has no entry \<open>dt\<close>, or its value is
  \<^verbatim>\<open>None\<close>, or the table is a dict without \<open>key\<close>, a string that does not contain
  \<open>key\<close> or a list that does not hold it, \<^verbatim>\<open>extract_data\<close> returns the empty frame
  and raises nothing.  When the table is a string that contains \<open>key\<close> or a list that
  holds it, and when the ownership root is \<^verbatim>\<open>None\<close>, \<^verbatim>\<open>extract_data\<close> raises a
  \<^verbatim>\<open>TypeError\<close>.
\<close>

theorem extract_data_absent_table_empty:
  "(py_get data ''ownershipDocument'' = Inr (XDict rd) \<and>
    (dt = ''derivativeTable'' \<and> key = ''derivativeTransaction'' \<or>
     dt = ''nonDerivativeTable'' \<and> key = ''nonDerivativeTransaction'') \<and>
    (map_of rd dt = None \<or> map_of rd dt = Some XNull \<or>
     (\<exists>td. map_of rd dt = Some (XDict td) \<and> map_of td key = None) \<or>
     (\<exists>s. map_of rd dt = Some (XStr s) \<and> \<not> str_in key s) \<or>
     (\<exists>l. map_of rd dt = Some (XList l) \<and> XStr key \<notin> set l))
    \<longrightarrow> extract_data data dt cik_name = Inr []) \<and>
   (py_get data ''ownershipDocument'' = Inr (XDict rd) \<and>
    (dt = ''derivativeTable'' \<and> key = ''derivativeTransaction'' \<or>
     dt = ''nonDerivativeTable'' \<and> key = ''nonDerivativeTransaction'') \<and>
    ((\<exists>s. map_of rd dt = Some (XStr s) \<and> str_in key s) \<or>
     (\<exists>l. map_of rd dt = Some (XList l) \<and> XStr key \<in> set l))
    \<longrightarrow> extract_data data dt cik_name = Inl TypeError) \<and>
   (py_get data ''ownershipDocument'' = Inr XNull
    \<longrightarrow> extract_data data dt cik_name = Inl TypeError)"
proof (intro conjI impI)
  assume h: "py_get data ''ownershipDocument'' = Inr (XDict rd) \<and>
    (dt = ''derivativeTable'' \<and> key = ''derivativeTransaction'' \<or>
     dt = ''nonDerivativeTable'' \<and> key = ''nonDerivativeTransaction'') \<and>
    (map_of rd dt = None \<or> map_of rd dt = Some XNull \<or>
     (\<exists>td. map_of rd dt = Some (XDict td) \<and> map_of td key = None) \<or>
     (\<exists>s. map_of rd dt = Some (XStr s) \<and> \<not> str_in key s) \<or>
     (\<exists>l. map_of rd dt = Some (XList l) \<and> XStr key \<notin> set l))"
  then have root: "py_get data ''ownershipDocument'' = Inr (XDict rd)"
    and kind: "dt = ''derivativeTable'' \<and> key = ''derivativeTransaction'' \<or>
               dt = ''nonDerivativeTable'' \<and> key = ''nonDerivativeTransaction''"
    by (simp_all only:)
  from h have "map_of rd dt = None \<or> map_of rd dt = Some XNull \<or>
     (\<exists>td. map_of rd dt = Some (XDict td) \<and> map_of td key = None) \<or>
     (\<exists>s. map_of rd dt = Some (XStr s) \<and> \<not> str_in key s) \<or>
     (\<exists>l. map_of rd dt = Some (XList l) \<and> XStr key \<notin> set l)"
    by (simp only:)
  then consider
      (nokey) "map_of rd dt = None"
    | (null) "map_of rd dt = Some XNull"
    | (dict) td where "map_of rd dt = Some (XDict td)" "map_of td key = None"
    | (str) s where "map_of rd dt = Some (XStr s)" "\<not> str_in key s"
    | (lst) l where "map_of rd dt = Some (XList l)" "XStr key \<notin> set l"
    by (elim disjE exE conjE)
  then have "select_transactions data dt = Inr None"
  proof cases
    case nokey
    then show ?thesis using root by (simp add: select_transactions_def)
  next
    case null
    then show ?thesis using root by (simp add: select_transactions_def)
  next
    case dict
    then show ?thesis using root kind
      by (auto simp: select_transactions_def transaction_list_def)
  next
    case str
    then show ?thesis using root kind
      by (auto simp: select_transactions_def transaction_list_def)
  next
    case lst
    then show ?thesis using root kind
      by (auto simp: select_transactions_def transaction_list_def)
  qed
  then show "extract_data data dt cik_name = Inr []" by (simp add: extract_data_def)
next
  assume h: "py_get data ''ownershipDocument'' = Inr (XDict rd) \<and>
    (dt = ''derivativeTable'' \<and> key = ''derivativeTransaction'' \<or>
     dt = ''nonDerivativeTable'' \<and> key = ''nonDerivativeTransaction'') \<and>
    ((\<exists>s. map_of rd dt = Some (XStr s) \<and> str_in key s) \<or>
     (\<exists>l. map_of rd dt = Some (XList l) \<and> XStr key \<in> set l))"
  then have root: "py_get data ''ownershipDocument'' = Inr (XDict rd)"
    and kind: "dt = ''derivativeTable'' \<and> key = ''derivativeTransaction'' \<or>
               dt = ''nonDerivativeTable'' \<and> key = ''nonDerivativeTransaction''"
    by (simp_all only:)
  from h have "(\<exists>s. map_of rd dt = Some (XStr s) \<and> str_in key s) \<or>
     (\<exists>l. map_of rd dt = Some (XList l) \<and> XStr key \<in> set l)"
    by (simp only:)
  then consider
      (str) s where "map_of rd dt = Some (XStr s)" "str_in key s"
    | (lst) l where "map_of rd dt = Some (XList l)" "XStr key \<in> set l"
    by (elim disjE exE conjE)
  then have "select_transactions data dt = Inl TypeError"
  proof cases
    case str
    then show ?thesis using root kind
      by (auto simp: select_transactions_def transaction_list_def)
  next
    case lst
    then show ?thesis using root kind
      by (auto simp: select_transactions_def transaction_list_def)
  qed
  then show "extract_data data dt cik_name = Inl TypeError" by (simp add: extract_data_def)
next
  assume "py_get data ''ownershipDocument'' = Inr XNull"
  then have "select_transactions data dt = Inl TypeError"
    by (simp add: select_transactions_def)
  then show "extract_data data dt cik_name = Inl TypeError" by (simp add: extract_data_def)
qed

lemma make_row_ok:
  assumes "py_get3 data ''ownershipDocument'' ''issuer'' ''issuerCik'' = Inr cik"
    and "py_get3 data ''ownershipDocument'' ''issuer'' ''issuerName'' = Inr nm"
    and "py_get3 data ''ownershipDocument'' ''issuer'' ''issuerTradingSymbol'' = Inr sy"
    and "py_get2 d ''securityTitle'' ''value'' = Inr title"
    and "py_get2 d ''transactionDate'' ''value'' = Inr date"
    and "py_get3 d ''transactionAmounts'' ''transactionShares'' ''value'' = Inr sh"
    and "py_get3 d ''ownershipNature'' ''directOrIndirectOwnership'' ''value'' = Inr own"
  shows "make_row data d dt p =
           Inr \<lparr>issuerCik = cik, issuerName = nm, issuerTradingSymbol = sy,
                securityTitle = title, transactionDate = date, transactionShares = sh,
                transactionPricePerShare = p, directOrIndirectOwnership = own,
                derivative_type = dt\<rparr>"
  using assms by (simp add: make_row_def)

text \<open>
  Claim C8.  When the value under the transaction key is not a list, the entries visited
  are that one value, and \<^verbatim>\<open>extract_data\<close> is the loop run on the one-element list.  If
  that entry is titled with a string containing \<open>Common Stock\<close>, the issuer trading
  symbol is \<open>cik_name\<close> and the fields a row needs are present, exactly one row is
  returned.
\<close>

theorem extract_data_single_object:
  assumes root: "py_get data ''ownershipDocument'' = Inr root"
    and table: "py_get root dt = Inr table" "table \<noteq> XNull"
    and kind: "dt = ''derivativeTable'' \<and> key = ''derivativeTransaction'' \<or>
               dt = ''nonDerivativeTable'' \<and> key = ''nonDerivativeTransaction''"
    and v: "py_get table key = Inr v" "\<forall>l. v \<noteq> XList l"
  shows "select_transactions data dt = Inr (Some [v]) \<and>
         extract_data data dt cik_name = extract_rows data dt cik_name [v] [] \<and>
         (py_get3 data ''ownershipDocument'' ''issuer'' ''issuerCik'' = Inr cik \<and>
          py_get3 data ''ownershipDocument'' ''issuer'' ''issuerName'' = Inr nm \<and>
          py_get3 data ''ownershipDocument'' ''issuer'' ''issuerTradingSymbol'' = Inr (XStr cik_name) \<and>
          py_get2 v ''securityTitle'' ''value'' = Inr (XStr title) \<and>
          str_in ''Common Stock'' title \<and>
          py_get2 v ''transactionDate'' ''value'' = Inr date \<and>
          py_get3 v ''transactionAmounts'' ''transactionShares'' ''value'' = Inr sh \<and>
          py_get3 v ''ownershipNature'' ''directOrIndirectOwnership'' ''value'' = Inr own
          \<longrightarrow> extract_data data dt cik_name =
                Inr [\<lparr>issuerCik = cik, issuerName = nm, issuerTradingSymbol = XStr cik_name,
                      securityTitle = XStr title, transactionDate = date,
                      transactionShares = sh, transactionPricePerShare = read_price v,
                      directOrIndirectOwnership = own, derivative_type = dt\<rparr>])"
proof -
  from table(1) obtain rd where rd: "root = XDict rd" "map_of rd dt = Some table"
    using py_get_Inr_dict by blast
  from v(1) obtain td where td: "table = XDict td" "map_of td key = Some v"
    using py_get_Inr_dict by blast
  have al: "as_list v = [v]"
    using v(2) by (cases v) (auto simp: as_list_def)
  have sel: "select_transactions data dt = Inr (Some [v])"
    using root kind rd td al
    by (auto simp: select_transactions_def transaction_list_def)
  then have ex: "extract_data data dt cik_name = extract_rows data dt cik_name [v] []"
    by (simp add: extract_data_def)
  have one: "extract_data data dt cik_name =
                Inr [\<lparr>issuerCik = cik, issuerName = nm, issuerTradingSymbol = XStr cik_name,
                      securityTitle = XStr title, transactionDate = date,
                      transactionShares = sh, transactionPricePerShare = read_price v,
                      directOrIndirectOwnership = own, derivative_type = dt\<rparr>]"
    if h: "py_get3 data ''ownershipDocument'' ''issuer'' ''issuerCik'' = Inr cik \<and>
          py_get3 data ''ownershipDocument'' ''issuer'' ''issuerName'' = Inr nm \<and>
          py_get3 data ''ownershipDocument'' ''issuer'' ''issuerTradingSymbol'' = Inr (XStr cik_name) \<and>
          py_get2 v ''securityTitle'' ''value'' = Inr (XStr title) \<and>
          str_in ''Common Stock'' title \<and>
          py_get2 v ''transactionDate'' ''value'' = Inr date \<and>
          py_get3 v ''transactionAmounts'' ''transactionShares'' ''value'' = Inr sh \<and>
          py_get3 v ''ownershipNature'' ''directOrIndirectOwnership'' ''value'' = Inr own"
  proof -
    from h have pf: "passes_filter data v cik_name = Inr True"
      unfolding passes_filter_True by simp
    from h have "make_row data v dt (read_price v) =
           Inr \<lparr>issuerCik = cik, issuerName = nm, issuerTradingSymbol = XStr cik_name,
                securityTitle = XStr title, transactionDate = date, transactionShares = sh,
                transactionPricePerShare = read_price v, directOrIndirectOwnership = own,
                derivative_type = dt\<rparr>"
      by (intro make_row_ok) simp_all
    with pf ex show ?thesis by simp
  qed
  from sel ex one show ?thesis by blast
qed

text \<open>
  Claim C9.  The rows returned are, in order, those of the entries that pass the filter,
  and the price of each is the value at
  \<open>transactionAmounts.transactionPricePerShare.value\<close> of its entry, or \<^verbatim>\<open>None\<close> when
  that read fails: no other price is written.  When \<^verbatim>\<open>extract_data\<close> raises, the fault is
  that of the filter of some entry or of the row of a passing entry built with a null
  price: it never comes from reading the price.
\<close>

theorem extract_data_price_or_null:
  assumes sel: "select_transactions data dt = Inr (Some ds)"
  shows "(\<forall>recs. extract_data data dt cik_name = Inr recs \<longrightarrow>
            list_all2
              (\<lambda>d r. transactionPricePerShare r =
                 (case py_get3 d ''transactionAmounts'' ''transactionPricePerShare'' ''value'' of
                    Inl e \<Rightarrow> XNull | Inr p \<Rightarrow> p))
              (filter (\<lambda>d. passes_filter data d cik_name = Inr True) ds) recs) \<and>
         (\<forall>e. extract_data data dt cik_name = Inl e \<longrightarrow>
            (\<exists>d\<in>set ds. passes_filter data d cik_name = Inl e \<or>
               (passes_filter data d cik_name = Inr True \<and> make_row data d dt XNull = Inl e)))"
proof (intro conjI allI impI)
  fix recs
  assume "extract_data data dt cik_name = Inr recs"
  with sel have "extract_rows data dt cik_name ds [] = Inr recs"
    by (simp add: extract_data_def)
  from extract_rows_Inr [OF this]
  have "list_all2 (\<lambda>d r. make_row data d dt (read_price d) = Inr r)
          (filter (\<lambda>d. passes_filter data d cik_name = Inr True) ds) recs"
    by simp
  then show "list_all2
              (\<lambda>d r. transactionPricePerShare r =
                 (case py_get3 d ''transactionAmounts'' ''transactionPricePerShare'' ''value'' of
                    Inl e \<Rightarrow> XNull | Inr p \<Rightarrow> p))
              (filter (\<lambda>d. passes_filter data d cik_name = Inr True) ds) recs"
  proof (rule list_all2_mono)
    fix d r
    assume "make_row data d dt (read_price d) = Inr r"
    from make_row_Inr [OF this] have "transactionPricePerShare r = read_price d" by simp
    then show "transactionPricePerShare r =
                 (case py_get3 d ''transactionAmounts'' ''transactionPricePerShare'' ''value'' of
                    Inl e \<Rightarrow> XNull | Inr p \<Rightarrow> p)"
      by (simp add: read_price_def)
  qed
next
  fix e
  assume "extract_data data dt cik_name = Inl e"
  with sel have "extract_rows data dt cik_name ds [] = Inl e"
    by (simp add: extract_data_def)
  from extract_rows_Inl [OF this] obtain d where d: "d \<in> set ds"
    "passes_filter data d cik_name = Inl e \<or>
       (passes_filter data d cik_name = Inr True \<and> make_row data d dt (read_price d) = Inl e)"
    by blast
  from d(2) have "passes_filter data d cik_name = Inl e \<or>
       (passes_filter data d cik_name = Inr True \<and> make_row data d dt XNull = Inl e)"
    using make_row_price_free [of data d dt "read_price d" e XNull] by blast
  with d(1) show "\<exists>d\<in>set ds. passes_filter data d cik_name = Inl e \<or>
               (passes_filter data d cik_name = Inr True \<and> make_row data d dt XNull = Inl e)"
    by blast
qed

text \<open>
  Claim C10.  Let \<open>d\<close> be an entry of the selected list.  If its
  \<open>securityTitle.value\<close> is absent; or the title test holds and the issuer's
  \<open>issuerTradingSymbol\<close> is absent; or \<open>d\<close> passes the filter and one of
  \<open>issuerCik\<close>, \<open>issuerName\<close>, \<open>transactionDate.value\<close>,
  \<open>transactionAmounts.transactionShares.value\<close> and
  \<open>ownershipNature.directOrIndirectOwnership.value\<close> is absent, then \<^verbatim>\<open>extract_data\<close>
  raises a \<^verbatim>\<open>KeyError\<close> or a \<^verbatim>\<open>TypeError\<close> and returns no row.
\<close>

theorem extract_data_required_fields:
  assumes sel: "select_transactions data dt = Inr (Some ds)" and d: "d \<in> set ds"
    and absent:
      "(\<exists>e. py_get2 d ''securityTitle'' ''value'' = Inl e) \<or>
       (\<exists>t. py_get2 d ''securityTitle'' ''value'' = Inr t \<and>
            py_in ''Common Stock'' t = Inr True \<and>
            (\<exists>e. py_get3 data ''ownershipDocument'' ''issuer'' ''issuerTradingSymbol'' = Inl e)) \<or>
       ((\<exists>t. py_get2 d ''securityTitle'' ''value'' = Inr t \<and>
             py_in ''Common Stock'' t = Inr True \<and>
             py_get3 data ''ownershipDocument'' ''issuer'' ''issuerTradingSymbol''
               = Inr (XStr cik_name)) \<and>
        (\<exists>e. py_get3 data ''ownershipDocument'' ''issuer'' ''issuerCik'' = Inl e \<or>
             py_get3 data ''ownershipDocument'' ''issuer'' ''issuerName'' = Inl e \<or>
             py_get2 d ''transactionDate'' ''value'' = Inl e \<or>
             py_get3 d ''transactionAmounts'' ''transactionShares'' ''value'' = Inl e \<or>
             py_get3 d ''ownershipNature'' ''directOrIndirectOwnership'' ''value'' = Inl e))"
  shows "\<exists>e. extract_data data dt cik_name = Inl e \<and> (e = KeyError \<or> e = TypeError)"
proof -
  from absent consider
      (title) e where "py_get2 d ''securityTitle'' ''value'' = Inl e"
    | (symbol) t e where "py_get2 d ''securityTitle'' ''value'' = Inr t"
        "py_in ''Common Stock'' t = Inr True"
        "py_get3 data ''ownershipDocument'' ''issuer'' ''issuerTradingSymbol'' = Inl e"
    | (row) t e where "py_get2 d ''securityTitle'' ''value'' = Inr t"
        "py_in ''Common Stock'' t = Inr True"
        "py_get3 data ''ownershipDocument'' ''issuer'' ''issuerTradingSymbol'' = Inr (XStr cik_name)"
        "py_get3 data ''ownershipDocument'' ''issuer'' ''issuerCik'' = Inl e \<or>
         py_get3 data ''ownershipDocument'' ''issuer'' ''issuerName'' = Inl e \<or>
         py_get2 d ''transactionDate'' ''value'' = Inl e \<or>
         py_get3 d ''transactionAmounts'' ''transactionShares'' ''value'' = Inl e \<or>
         py_get3 d ''ownershipNature'' ''directOrIndirectOwnership'' ''value'' = Inl e"
    by blast
  then have "(\<exists>e. passes_filter data d cik_name = Inl e) \<or>
        (passes_filter data d cik_name = Inr True \<and>
         (\<exists>e. make_row data d dt (read_price d) = Inl e))"
  proof cases
    case title
    then have "passes_filter data d cik_name = Inl e" by (simp add: passes_filter_def)
    then show ?thesis by blast
  next
    case symbol
    then have "passes_filter data d cik_name = Inl e" by (simp add: passes_filter_def)
    then show ?thesis by blast
  next
    case row
    then have pf: "passes_filter data d cik_name = Inr True"
      unfolding passes_filter_True by blast
    have "\<exists>e'. make_row data d dt (read_price d) = Inl e'"
      by (rule make_row_absent [where e = e]) (use row(4) in blast)
    with pf show ?thesis by blast
  qed
  from extract_rows_raises [OF d this] obtain e where
    e: "extract_rows data dt cik_name ds [] = Inl e" by blast
  from extract_rows_Inl [OF e] have "e = KeyError \<or> e = TypeError"
    by (auto dest: passes_filter_error make_row_Inl)
  with e sel show ?thesis by (simp add: extract_data_def)
qed

subsection \<open>Examples for the extractor\<close>

text \<open>
  A \<open>nonDerivativeTable\<close> holding one transaction object: the row is tagged
  \<open>nonDerivativeTable\<close>, not \<open>non-derivative\<close>.
\<close>

theorem extract_data_tag_counterexample:
  "extract_data
     (ex_doc ''ABC'' [(''nonDerivativeTable'',
        XDict [(''nonDerivativeTransaction'',
                ex_entry ''Common Stock'' [ex_shares ''100'', ex_price ''12.50''])])])
     ''nonDerivativeTable'' ''ABC''
   = Inr [ex_row ''ABC'' ''Common Stock'' ''100'' (XStr ''12.50'') ''nonDerivativeTable''] \<and>
   derivative_type (ex_row ''ABC'' ''Common Stock'' ''100'' (XStr ''12.50'') ''nonDerivativeTable'')
     \<noteq> ''non-derivative''"
  by (simp add: eval_doc)

text \<open>
  A \<open>Stock Option\<close> entry beside a \<open>Common Stock\<close> entry: one row is returned under
  the key \<open>ABC\<close>, none under \<open>abc\<close>.
\<close>

theorem extract_data_emits_only_filtered_witness:
  "extract_data
     (ex_doc ''ABC'' [(''nonDerivativeTable'',
        XDict [(''nonDerivativeTransaction'',
                XList [ex_entry ''Stock Option'' [ex_shares ''5'', ex_price ''1.00''],
                       ex_entry ''Common Stock'' [ex_shares ''100'', ex_price ''12.50'']])])])
     ''nonDerivativeTable'' ''ABC''
   = Inr [ex_row ''ABC'' ''Common Stock'' ''100'' (XStr ''12.50'') ''nonDerivativeTable''] \<and>
   issuerTradingSymbol (ex_row ''ABC'' ''Common Stock'' ''100'' (XStr ''12.50'') ''nonDerivativeTable'')
     = XStr ''ABC'' \<and>
   py_in ''Common Stock''
     (securityTitle (ex_row ''ABC'' ''Common Stock'' ''100'' (XStr ''12.50'') ''nonDerivativeTable''))
     = Inr True \<and>
   extract_data
     (ex_doc ''ABC'' [(''nonDerivativeTable'',
        XDict [(''nonDerivativeTransaction'',
                XList [ex_entry ''Stock Option'' [ex_shares ''5'', ex_price ''1.00''],
                       ex_entry ''Common Stock'' [ex_shares ''100'', ex_price ''12.50'']])])])
     ''nonDerivativeTable'' ''abc''
   = Inr []"
proof -
  let ?doc = "ex_doc ''ABC'' [(''nonDerivativeTable'',
        XDict [(''nonDerivativeTransaction'',
                XList [ex_entry ''Stock Option'' [ex_shares ''5'', ex_price ''1.00''],
                       ex_entry ''Common Stock'' [ex_shares ''100'', ex_price ''12.50'']])])]"
  let ?r = "ex_row ''ABC'' ''Common Stock'' ''100'' (XStr ''12.50'') ''nonDerivativeTable''"
  have e: "extract_data ?doc ''nonDerivativeTable'' ''ABC'' = Inr [?r]"
    by (simp add: eval_doc)
  have m: "?r \<in> set [?r]" by simp
  have lower: "extract_data ?doc ''nonDerivativeTable'' ''abc'' = Inr []"
    by (simp add: eval_doc)
  from extract_data_emits_only_filtered [OF e m] e lower show ?thesis by blast
qed

text \<open>A document with both tables: each call returns the row of its own table.\<close>

theorem extract_data_tag_is_table_kind_witness:
  "extract_data
     (ex_doc ''ABC''
        [(''derivativeTable'',
          XDict [(''derivativeTransaction'',
                  XList [ex_entry ''Common Stock'' [ex_shares ''7'', ex_price ''3.00'']])]),
         (''nonDerivativeTable'',
          XDict [(''nonDerivativeTransaction'',
                  ex_entry ''Common Stock'' [ex_shares ''100'', ex_price ''12.50''])])])
     ''derivativeTable'' ''ABC''
   = Inr [ex_row ''ABC'' ''Common Stock'' ''7'' (XStr ''3.00'') ''derivativeTable''] \<and>
   derivative_type (ex_row ''ABC'' ''Common Stock'' ''7'' (XStr ''3.00'') ''derivativeTable'')
     = ''derivativeTable'' \<and>
   extract_data
     (ex_doc ''ABC''
        [(''derivativeTable'',
          XDict [(''derivativeTransaction'',
                  XList [ex_entry ''Common Stock'' [ex_shares ''7'', ex_price ''3.00'']])]),
         (''nonDerivativeTable'',
          XDict [(''nonDerivativeTransaction'',
                  ex_entry ''Common Stock'' [ex_shares ''100'', ex_price ''12.50''])])])
     ''nonDerivativeTable'' ''ABC''
   = Inr [ex_row ''ABC'' ''Common Stock'' ''100'' (XStr ''12.50'') ''nonDerivativeTable''] \<and>
   derivative_type (ex_row ''ABC'' ''Common Stock'' ''100'' (XStr ''12.50'') ''nonDerivativeTable'')
     = ''nonDerivativeTable''"
proof -
  let ?doc = "ex_doc ''ABC''
        [(''derivativeTable'',
          XDict [(''derivativeTransaction'',
                  XList [ex_entry ''Common Stock'' [ex_shares ''7'', ex_price ''3.00'']])]),
         (''nonDerivativeTable'',
          XDict [(''nonDerivativeTransaction'',
                  ex_entry ''Common Stock'' [ex_shares ''100'', ex_price ''12.50''])])]"
  let ?r = "ex_row ''ABC'' ''Common Stock'' ''7'' (XStr ''3.00'') ''derivativeTable''"
  let ?q = "ex_row ''ABC'' ''Common Stock'' ''100'' (XStr ''12.50'') ''nonDerivativeTable''"
  have e: "extract_data ?doc ''derivativeTable'' ''ABC'' = Inr [?r]"
    by (simp add: eval_doc)
  have m: "?r \<in> set [?r]" by simp
  have f: "extract_data ?doc ''nonDerivativeTable'' ''ABC'' = Inr [?q]"
    by (simp add: eval_doc)
  have n: "?q \<in> set [?q]" by simp
  from extract_data_tag_is_table_kind [OF e m] extract_data_tag_is_table_kind [OF f n] e f
  show ?thesis by blast
qed

text \<open>
  An empty \<open>ownershipDocument\<close> element, and a table that is a text naming the
  transaction key: both raise.
\<close>

theorem extract_data_absent_table_counterexample:
  "extract_data (XDict [(''ownershipDocument'', XNull)]) ''derivativeTable'' ''ABC''
     = Inl TypeError \<and>
   extract_data
     (ex_doc ''ABC'' [(''nonDerivativeTable'', XStr ''see nonDerivativeTransaction'')])
     ''nonDerivativeTable'' ''ABC''
     = Inl TypeError"
  by (simp add: eval_doc)

text \<open>
  A document without the table, with a null table, with a table without transactions, with
  a text table, with a text table naming the key, and with a null root.
\<close>

theorem extract_data_absent_table_empty_witness:
  "extract_data (ex_doc ''ABC'' []) ''derivativeTable'' ''ABC'' = Inr [] \<and>
   extract_data (ex_doc ''ABC'' [(''nonDerivativeTable'', XNull)])
     ''nonDerivativeTable'' ''ABC'' = Inr [] \<and>
   extract_data (ex_doc ''ABC'' [(''nonDerivativeTable'', XDict [])])
     ''nonDerivativeTable'' ''ABC'' = Inr [] \<and>
   extract_data (ex_doc ''ABC'' [(''nonDerivativeTable'', XStr ''none'')])
     ''nonDerivativeTable'' ''ABC'' = Inr [] \<and>
   extract_data (ex_doc ''ABC'' [(''nonDerivativeTable'', XStr ''see nonDerivativeTransaction'')])
     ''nonDerivativeTable'' ''ABC'' = Inl TypeError \<and>
   extract_data (XDict [(''ownershipDocument'', XNull)]) ''derivativeTable'' ''ABC''
     = Inl TypeError"
proof -
  let ?issuer = "(''issuer'', XDict [(''issuerCik'', XStr ''0000123456''),
                                  (''issuerName'', XStr ''ABC Corp''),
                                  (''issuerTradingSymbol'', XStr ''ABC'')])"
  have a: "extract_data (ex_doc ''ABC'' []) ''derivativeTable'' ''ABC'' = Inr []"
    using extract_data_absent_table_empty
      [where data = "ex_doc ''ABC'' []" and rd = "[?issuer]" and dt = "''derivativeTable''"
         and key = "''derivativeTransaction''" and cik_name = "''ABC''"]
    by (simp add: ex_doc_def)
  have b: "extract_data (ex_doc ''ABC'' [(''nonDerivativeTable'', XNull)])
     ''nonDerivativeTable'' ''ABC'' = Inr []"
    using extract_data_absent_table_empty
      [where data = "ex_doc ''ABC'' [(''nonDerivativeTable'', XNull)]"
         and rd = "[?issuer, (''nonDerivativeTable'', XNull)]" and dt = "''nonDerivativeTable''"
         and key = "''nonDerivativeTransaction''" and cik_name = "''ABC''"]
    by (simp add: ex_doc_def)
  have c: "extract_data (ex_doc ''ABC'' [(''nonDerivativeTable'', XDict [])])
     ''nonDerivativeTable'' ''ABC'' = Inr []"
    using extract_data_absent_table_empty
      [where data = "ex_doc ''ABC'' [(''nonDerivativeTable'', XDict [])]"
         and rd = "[?issuer, (''nonDerivativeTable'', XDict [])]" and dt = "''nonDerivativeTable''"
         and key = "''nonDerivativeTransaction''" and cik_name = "''ABC''"]
    by (simp add: ex_doc_def)
  have d: "extract_data (ex_doc ''ABC'' [(''nonDerivativeTable'', XStr ''none'')])
     ''nonDerivativeTable'' ''ABC'' = Inr []"
    using extract_data_absent_table_empty
      [where data = "ex_doc ''ABC'' [(''nonDerivativeTable'', XStr ''none'')]"
         and rd = "[?issuer, (''nonDerivativeTable'', XStr ''none'')]"
         and dt = "''nonDerivativeTable''"
         and key = "''nonDerivativeTransaction''" and cik_name = "''ABC''"]
    by (simp add: ex_doc_def)
  have e: "extract_data
     (ex_doc ''ABC'' [(''nonDerivativeTable'', XStr ''see nonDerivativeTransaction'')])
     ''nonDerivativeTable'' ''ABC'' = Inl TypeError"
    using extract_data_absent_table_empty
      [where data = "ex_doc ''ABC'' [(''nonDerivativeTable'', XStr ''see nonDerivativeTransaction'')]"
         and rd = "[?issuer, (''nonDerivativeTable'', XStr ''see nonDerivativeTransaction'')]"
         and dt = "''nonDerivativeTable''"
         and key = "''nonDerivativeTransaction''" and cik_name = "''ABC''"]
    by (simp add: ex_doc_def)
  have f: "extract_data (XDict [(''ownershipDocument'', XNull)]) ''derivativeTable'' ''ABC''
     = Inl TypeError"
    using extract_data_absent_table_empty
      [where data = "XDict [(''ownershipDocument'', XNull)]" and dt = "''derivativeTable''"
         and cik_name = "''ABC''"]
    by simp
  from a b c d e f show ?thesis by (intro conjI)
qed

text \<open>The single transaction object of the specification.\<close>

theorem extract_data_single_object_witness:
  "select_transactions
     (ex_doc ''ABC'' [(''nonDerivativeTable'',
        XDict [(''nonDerivativeTransaction'',
                ex_entry ''Common Stock'' [ex_shares ''100'', ex_price ''12.50''])])])
     ''nonDerivativeTable''
   = Inr (Some [ex_entry ''Common Stock'' [ex_shares ''100'', ex_price ''12.50'']]) \<and>
   extract_data
     (ex_doc ''ABC'' [(''nonDerivativeTable'',
        XDict [(''nonDerivativeTransaction'',
                ex_entry ''Common Stock'' [ex_shares ''100'', ex_price ''12.50''])])])
     ''nonDerivativeTable'' ''ABC''
   = Inr [ex_row ''ABC'' ''Common Stock'' ''100'' (XStr ''12.50'') ''nonDerivativeTable'']"
proof -
  let ?v = "ex_entry ''Common Stock'' [ex_shares ''100'', ex_price ''12.50'']"
  let ?table = "XDict [(''nonDerivativeTransaction'', ?v)]"
  let ?issuer = "(''issuer'', XDict [(''issuerCik'', XStr ''0000123456''),
                                  (''issuerName'', XStr ''ABC Corp''),
                                  (''issuerTradingSymbol'', XStr ''ABC'')])"
  let ?root = "XDict [?issuer, (''nonDerivativeTable'', ?table)]"
  let ?doc = "ex_doc ''ABC'' [(''nonDerivativeTable'', ?table)]"
  have root: "py_get ?doc ''ownershipDocument'' = Inr ?root"
    by (simp add: ex_doc_def)
  have table: "py_get ?root ''nonDerivativeTable'' = Inr ?table" by simp
  have nn: "?table \<noteq> XNull" by simp
  have kind: "''nonDerivativeTable'' = ''derivativeTable'' \<and>
              ''nonDerivativeTransaction'' = ''derivativeTransaction'' \<or>
            ''nonDerivativeTable'' = ''nonDerivativeTable'' \<and>
              ''nonDerivativeTransaction'' = ''nonDerivativeTransaction''"
    by simp
  have v: "py_get ?table ''nonDerivativeTransaction'' = Inr ?v" by simp
  have nl: "\<forall>l. ?v \<noteq> XList l" by (simp add: ex_entry_def)
  have fields:
    "py_get3 ?doc ''ownershipDocument'' ''issuer'' ''issuerCik'' = Inr (XStr ''0000123456'') \<and>
     py_get3 ?doc ''ownershipDocument'' ''issuer'' ''issuerName'' = Inr (XStr ''ABC Corp'') \<and>
     py_get3 ?doc ''ownershipDocument'' ''issuer'' ''issuerTradingSymbol'' = Inr (XStr ''ABC'') \<and>
     py_get2 ?v ''securityTitle'' ''value'' = Inr (XStr ''Common Stock'') \<and>
     str_in ''Common Stock'' ''Common Stock'' \<and>
     py_get2 ?v ''transactionDate'' ''value'' = Inr (XStr ''2020-01-02'') \<and>
     py_get3 ?v ''transactionAmounts'' ''transactionShares'' ''value'' = Inr (XStr ''100'') \<and>
     py_get3 ?v ''ownershipNature'' ''directOrIndirectOwnership'' ''value'' = Inr (XStr ''D'')"
    by (simp add: eval_doc)
  have price: "read_price ?v = XStr ''12.50''"
    by (simp add: eval_doc)
  have row: "\<lparr>issuerCik = XStr ''0000123456'', issuerName = XStr ''ABC Corp'',
               issuerTradingSymbol = XStr ''ABC'', securityTitle = XStr ''Common Stock'',
               transactionDate = XStr ''2020-01-02'', transactionShares = XStr ''100'',
               transactionPricePerShare = read_price ?v,
               directOrIndirectOwnership = XStr ''D'',
               derivative_type = ''nonDerivativeTable''\<rparr>
             = ex_row ''ABC'' ''Common Stock'' ''100'' (XStr ''12.50'') ''nonDerivativeTable''"
    by (simp only: price ex_row_def)
  note single = extract_data_single_object [OF root table nn kind v nl, of "''ABC''"
      "XStr ''0000123456''" "XStr ''ABC Corp''" "''Common Stock''" "XStr ''2020-01-02''"
      "XStr ''100''" "XStr ''D''"]
  from single have s: "select_transactions ?doc ''nonDerivativeTable'' = Inr (Some [?v])"
    by (rule conjunct1)
  from single fields have "extract_data ?doc ''nonDerivativeTable'' ''ABC'' =
      Inr [\<lparr>issuerCik = XStr ''0000123456'', issuerName = XStr ''ABC Corp'',
               issuerTradingSymbol = XStr ''ABC'', securityTitle = XStr ''Common Stock'',
               transactionDate = XStr ''2020-01-02'', transactionShares = XStr ''100'',
               transactionPricePerShare = read_price ?v,
               directOrIndirectOwnership = XStr ''D'',
               derivative_type = ''nonDerivativeTable''\<rparr>]"
    by blast
  then have "extract_data ?doc ''nonDerivativeTable'' ''ABC'' =
      Inr [ex_row ''ABC'' ''Common Stock'' ''100'' (XStr ''12.50'') ''nonDerivativeTable'']"
    by (simp only: row)
  with s show ?thesis by (rule conjI)
qed

text \<open>Three entries: with a price, without the price element, with an empty price element.\<close>

theorem extract_data_price_or_null_witness:
  "extract_data
     (ex_doc ''ABC'' [(''nonDerivativeTable'',
        XDict [(''nonDerivativeTransaction'',
                XList [ex_entry ''Common Stock'' [ex_shares ''100'', ex_price ''12.50''],
                       ex_entry ''Common Stock'' [ex_shares ''200''],
                       ex_entry ''Common Stock''
                         [ex_shares ''300'', (''transactionPricePerShare'', XNull)]])])])
     ''nonDerivativeTable'' ''ABC''
   = Inr [ex_row ''ABC'' ''Common Stock'' ''100'' (XStr ''12.50'') ''nonDerivativeTable'',
          ex_row ''ABC'' ''Common Stock'' ''200'' XNull ''nonDerivativeTable'',
          ex_row ''ABC'' ''Common Stock'' ''300'' XNull ''nonDerivativeTable''] \<and>
   list_all2
     (\<lambda>d r. transactionPricePerShare r =
        (case py_get3 d ''transactionAmounts'' ''transactionPricePerShare'' ''value'' of
           Inl e \<Rightarrow> XNull | Inr p \<Rightarrow> p))
     [ex_entry ''Common Stock'' [ex_shares ''100'', ex_price ''12.50''],
      ex_entry ''Common Stock'' [ex_shares ''200''],
      ex_entry ''Common Stock'' [ex_shares ''300'', (''transactionPricePerShare'', XNull)]]
     [ex_row ''ABC'' ''Common Stock'' ''100'' (XStr ''12.50'') ''nonDerivativeTable'',
      ex_row ''ABC'' ''Common Stock'' ''200'' XNull ''nonDerivativeTable'',
      ex_row ''ABC'' ''Common Stock'' ''300'' XNull ''nonDerivativeTable'']"
proof -
  let ?e1 = "ex_entry ''Common Stock'' [ex_shares ''100'', ex_price ''12.50'']"
  let ?e2 = "ex_entry ''Common Stock'' [ex_shares ''200'']"
  let ?e3 = "ex_entry ''Common Stock'' [ex_shares ''300'', (''transactionPricePerShare'', XNull)]"
  let ?doc = "ex_doc ''ABC'' [(''nonDerivativeTable'',
        XDict [(''nonDerivativeTransaction'', XList [?e1, ?e2, ?e3])])]"
  let ?rs = "[ex_row ''ABC'' ''Common Stock'' ''100'' (XStr ''12.50'') ''nonDerivativeTable'',
          ex_row ''ABC'' ''Common Stock'' ''200'' XNull ''nonDerivativeTable'',
          ex_row ''ABC'' ''Common Stock'' ''300'' XNull ''nonDerivativeTable'']"
  have sel: "select_transactions ?doc ''nonDerivativeTable'' = Inr (Some [?e1, ?e2, ?e3])"
    by (simp add: eval_doc)
  have e: "extract_data ?doc ''nonDerivativeTable'' ''ABC'' = Inr ?rs"
    by (simp add: eval_doc)
  have f: "filter (\<lambda>d. passes_filter ?doc d ''ABC'' = Inr True) [?e1, ?e2, ?e3] = [?e1, ?e2, ?e3]"
    by (simp add: eval_doc)
  from extract_data_price_or_null [OF sel, of "''ABC''"] e f
  show ?thesis by simp
qed

text \<open>An entry without its share count.\<close>

theorem extract_data_required_fields_witness:
  "extract_data
     (ex_doc ''ABC'' [(''nonDerivativeTable'',
        XDict [(''nonDerivativeTransaction'',
                XList [ex_entry ''Common Stock'' [ex_price ''12.50'']])])])
     ''nonDerivativeTable'' ''ABC'' = Inl KeyError \<and>
   (\<exists>e. extract_data
     (ex_doc ''ABC'' [(''nonDerivativeTable'',
        XDict [(''nonDerivativeTransaction'',
                XList [ex_entry ''Common Stock'' [ex_price ''12.50'']])])])
     ''nonDerivativeTable'' ''ABC'' = Inl e \<and> (e = KeyError \<or> e = TypeError))"
proof -
  let ?d = "ex_entry ''Common Stock'' [ex_price ''12.50'']"
  let ?doc = "ex_doc ''ABC'' [(''nonDerivativeTable'',
        XDict [(''nonDerivativeTransaction'', XList [?d])])]"
  have sel: "select_transactions ?doc ''nonDerivativeTable'' = Inr (Some [?d])"
    by (simp add: eval_doc)
  have d: "?d \<in> set [?d]" by simp
  have pass: "py_get2 ?d ''securityTitle'' ''value'' = Inr (XStr ''Common Stock'') \<and>
             py_in ''Common Stock'' (XStr ''Common Stock'') = Inr True \<and>
             py_get3 ?doc ''ownershipDocument'' ''issuer'' ''issuerTradingSymbol''
               = Inr (XStr ''ABC'')"
    by (simp add: eval_doc)
  have miss: "py_get3 ?d ''transactionAmounts'' ''transactionShares'' ''value'' = Inl KeyError"
    by (simp add: eval_doc)
  have absent:
      "(\<exists>e. py_get2 ?d ''securityTitle'' ''value'' = Inl e) \<or>
       (\<exists>t. py_get2 ?d ''securityTitle'' ''value'' = Inr t \<and>
            py_in ''Common Stock'' t = Inr True \<and>
            (\<exists>e. py_get3 ?doc ''ownershipDocument'' ''issuer'' ''issuerTradingSymbol'' = Inl e)) \<or>
       ((\<exists>t. py_get2 ?d ''securityTitle'' ''value'' = Inr t \<and>
             py_in ''Common Stock'' t = Inr True \<and>
             py_get3 ?doc ''ownershipDocument'' ''issuer'' ''issuerTradingSymbol''
               = Inr (XStr ''ABC'')) \<and>
        (\<exists>e. py_get3 ?doc ''ownershipDocument'' ''issuer'' ''issuerCik'' = Inl e \<or>
             py_get3 ?doc ''ownershipDocument'' ''issuer'' ''issuerName'' = Inl e \<or>
             py_get2 ?d ''transactionDate'' ''value'' = Inl e \<or>
             py_get3 ?d ''transactionAmounts'' ''transactionShares'' ''value'' = Inl e \<or>
             py_get3 ?d ''ownershipNature'' ''directOrIndirectOwnership'' ''value'' = Inl e))"
    using pass miss by blast
  have ev: "extract_data ?doc ''nonDerivativeTable'' ''ABC'' = Inl KeyError"
    by (simp add: eval_doc)
  from extract_data_required_fields [OF sel d absent] ev show ?thesis by blast
qed

end
